theory Spec2Isabelle
  imports Complex_Main "HOL-Library.Char_ord" "HOL-Library.List_Lexorder" "HOL-Library.Multiset"
    "HOL-Library.Log_Nat"
begin

section \<open>JavaScript numbers\<close>

text \<open>
  The worker computes with JavaScript numbers, which are IEEE 754 binary64 values. A
  finite number is the rational it denotes; the special values are \<open>NaN\<close> and
  the two infinities, which \<open>Number(...)\<close>, \<open>parseInt\<close> and
  \<open>JSON.parse\<close> can all deliver. The sign of zero is not tracked:
  JavaScript's \<open>-0 < 0\<close> is false and \<open>JSON.stringify(-0)\<close> is
  \<open>0\<close>, so both zeros are \<open>Fin 0\<close>.
\<close>

datatype jsnum = Fin rat | PosInf | NegInf | NaN

text \<open>
  The result of an arithmetic operation is the exact result rounded to the nearest
  binary64 value, a tie going to the even significand. For a positive rational
  \<open>q\<close> with \<open>2 ^ e \<le> q < 2 ^ (e + 1)\<close> the values nearby are the multiples
  of \<open>2 ^ (e - 52)\<close>; below \<open>2 ^ -1022\<close> (the subnormal range) they are the
  multiples of \<open>2 ^ -1074\<close>; a result that rounds to \<open>2 ^ 1024\<close> or more
  is an infinity.
\<close>

definition pow2 :: "int \<Rightarrow> rat" where
  "pow2 k = (if 0 \<le> k then 2 ^ nat k else 1 / 2 ^ nat (- k))"

definition round_half_even :: "rat \<Rightarrow> int" where
  "round_half_even x =
     (let f = \<lfloor>x\<rfloor>; d = x - of_int f
      in if d < 1 / 2 then f
         else if 1 / 2 < d then f + 1
         else if even f then f else f + 1)"

text \<open>The \<open>e\<close> with \<open>2 ^ e \<le> q < 2 ^ (e + 1)\<close>, for a positive \<open>q\<close>.\<close>

definition binary_exponent :: "rat \<Rightarrow> int" where
  "binary_exponent q =
     (let (n, d) = quotient_of q; k = bitlen n - bitlen d
      in if pow2 k \<le> q then k else k - 1)"

definition round_pos :: "rat \<Rightarrow> jsnum" where
  "round_pos q =
     (let e = max (binary_exponent q) (- 1022);
          m = round_half_even (q / pow2 (e - 52))
      in if 1024 \<le> e \<or> e = 1023 \<and> 2 ^ 53 \<le> m then PosInf
         else Fin (of_int m * pow2 (e - 52)))"

fun js_neg :: "jsnum \<Rightarrow> jsnum" where
  "js_neg (Fin a) = Fin (- a)"
| "js_neg PosInf = NegInf"
| "js_neg NegInf = PosInf"
| "js_neg NaN = NaN"

definition round_double :: "rat \<Rightarrow> jsnum" where
  "round_double q =
     (if q = 0 then Fin 0
      else if 0 < q then round_pos q
      else js_neg (round_pos (- q)))"

text \<open>The relational operators: every comparison with \<open>NaN\<close> is false.\<close>

fun js_lt :: "jsnum \<Rightarrow> jsnum \<Rightarrow> bool" where
  "js_lt NaN _ = False"
| "js_lt _ NaN = False"
| "js_lt (Fin a) (Fin b) = (a < b)"
| "js_lt (Fin a) PosInf = True"
| "js_lt (Fin a) NegInf = False"
| "js_lt PosInf _ = False"
| "js_lt NegInf NegInf = False"
| "js_lt NegInf _ = True"

fun js_le :: "jsnum \<Rightarrow> jsnum \<Rightarrow> bool" where
  "js_le NaN _ = False"
| "js_le _ NaN = False"
| "js_le (Fin a) (Fin b) = (a \<le> b)"
| "js_le (Fin a) PosInf = True"
| "js_le (Fin a) NegInf = False"
| "js_le PosInf PosInf = True"
| "js_le PosInf _ = False"
| "js_le NegInf _ = True"

definition js_gt :: "jsnum \<Rightarrow> jsnum \<Rightarrow> bool" where
  "js_gt a b = js_lt b a"

definition js_ge :: "jsnum \<Rightarrow> jsnum \<Rightarrow> bool" where
  "js_ge a b = js_le b a"

text \<open>
  Arithmetic on two finite numbers rounds the exact result. Division by a zero has
  the sign of the dividend only (the sign of the zero is not tracked); the worker
  divides by a capacity only where the capacity is positive or \<open>NaN\<close>.
\<close>

fun js_div :: "jsnum \<Rightarrow> jsnum \<Rightarrow> jsnum" where
  "js_div NaN _ = NaN"
| "js_div _ NaN = NaN"
| "js_div (Fin a) (Fin b) =
     (if b = 0 then (if a = 0 then NaN else if 0 < a then PosInf else NegInf)
      else round_double (a / b))"
| "js_div (Fin a) _ = Fin 0"
| "js_div PosInf (Fin b) = (if 0 \<le> b then PosInf else NegInf)"
| "js_div NegInf (Fin b) = (if 0 \<le> b then NegInf else PosInf)"
| "js_div _ _ = NaN"

fun js_mul :: "jsnum \<Rightarrow> jsnum \<Rightarrow> jsnum" where
  "js_mul NaN _ = NaN"
| "js_mul _ NaN = NaN"
| "js_mul (Fin a) (Fin b) = round_double (a * b)"
| "js_mul (Fin a) PosInf = (if a = 0 then NaN else if 0 < a then PosInf else NegInf)"
| "js_mul (Fin a) NegInf = (if a = 0 then NaN else if 0 < a then NegInf else PosInf)"
| "js_mul PosInf (Fin b) = (if b = 0 then NaN else if 0 < b then PosInf else NegInf)"
| "js_mul NegInf (Fin b) = (if b = 0 then NaN else if 0 < b then NegInf else PosInf)"
| "js_mul PosInf PosInf = PosInf"
| "js_mul NegInf NegInf = PosInf"
| "js_mul _ _ = NegInf"

fun js_add :: "jsnum \<Rightarrow> jsnum \<Rightarrow> jsnum" where
  "js_add NaN _ = NaN"
| "js_add _ NaN = NaN"
| "js_add (Fin a) (Fin b) = round_double (a + b)"
| "js_add (Fin a) x = x"
| "js_add x (Fin b) = x"
| "js_add PosInf PosInf = PosInf"
| "js_add NegInf NegInf = NegInf"
| "js_add _ _ = NaN"

text \<open>
  \<open>Math.floor\<close>, and \<open>Math.round\<close>, which rounds a half up. Both are
  exact: the integer they arrive at is a binary64 value when the argument is one.
\<close>

fun js_floor :: "jsnum \<Rightarrow> jsnum" where
  "js_floor (Fin a) = Fin (of_int \<lfloor>a\<rfloor>)"
| "js_floor x = x"

fun js_round :: "jsnum \<Rightarrow> jsnum" where
  "js_round (Fin a) = Fin (of_int \<lfloor>a + 1 / 2\<rfloor>)"
| "js_round x = x"

text \<open>\<open>Math.min\<close> and \<open>Math.max\<close>: \<open>NaN\<close> if an argument is.\<close>

definition js_min :: "jsnum \<Rightarrow> jsnum \<Rightarrow> jsnum" where
  "js_min a b = (if a = NaN \<or> b = NaN then NaN else if js_lt b a then b else a)"

definition js_max :: "jsnum \<Rightarrow> jsnum \<Rightarrow> jsnum" where
  "js_max a b = (if a = NaN \<or> b = NaN then NaN else if js_lt a b then b else a)"

section \<open>The scraper\<close>

subsection \<open>The pool catalog\<close>

text \<open>\<open>POOLS\<close>, an object literal: its keys in insertion order.\<close>

definition POOLS :: "(string \<times> string) list" where
  "POOLS =
     [(''SSD-4'', ''Hallenbad City''),
      (''SSD-7'', ''Hallenbad Oerlikon''),
      (''SSD-10'', ''Utoquai''),
      (''SSD-6'', ''Leimbach''),
      (''fb012'', ''Heuried''),
      (''BADI-1'', ''Enge'')]"

definition TRACKED_POOL_IDS :: "string set" where
  "TRACKED_POOL_IDS = set (map fst POOLS)"

subsection \<open>Entries and records\<close>

text \<open>
  \<open>CrowdMonitorEntry\<close>: the interface declares \<open>currentfill\<close> a string
  or a number and \<open>maxspace\<close> a number; the handler passes both through
  \<open>Number(...)\<close>, so both fields are read here as a string or a number.
  \<open>Number(s)\<close> on a string is ECMAScript's, not the worker's, and is a
  parameter \<open>toNum\<close> of the model; on a number it is the identity.
\<close>

datatype str_or_num = Str string | Num jsnum

record CrowdMonitorEntry =
  uid :: string
  maxspace :: str_or_num
  currentfill :: str_or_num

fun Number :: "(string \<Rightarrow> jsnum) \<Rightarrow> str_or_num \<Rightarrow> jsnum" where
  "Number toNum (Str s) = toNum s"
| "Number toNum (Num n) = n"

record PoolRecord =
  timestamp :: string
  pool_id :: string
  pool_name :: string
  current_fill :: jsnum
  max_capacity :: jsnum
  occupancy_percent :: jsnum
  occupancy_level :: jsnum

subsection \<open>Derived fields\<close>

definition calculateOccupancyLevel :: "jsnum \<Rightarrow> jsnum \<Rightarrow> jsnum" where
  "calculateOccupancyLevel currentFill maxCapacity =
     (if js_le maxCapacity (Fin 0) \<or> js_lt currentFill (Fin 0) then Fin 0
      else let ratio = js_div currentFill maxCapacity
           in js_min (Fin 4)
                (js_add (js_floor (js_div (js_mul ratio (Fin 100)) (Fin 25))) (Fin 1)))"

text \<open>
  \<open>POOLS[uid] || uid\<close>: the catalog name, or the id when the catalog has no
  (or an empty) name for it.
\<close>

definition pool_name_of :: "string \<Rightarrow> string" where
  "pool_name_of u =
     (case map_of POOLS u of
        None \<Rightarrow> u
      | Some n \<Rightarrow> (if n = [] then u else n))"

text \<open>The body of the \<open>map\<close> callback of the message handler.\<close>

definition toRecord :: "(string \<Rightarrow> jsnum) \<Rightarrow> string \<Rightarrow> CrowdMonitorEntry \<Rightarrow> PoolRecord" where
  "toRecord toNum ts entry =
     (let currentFill = Number toNum (currentfill entry);
          maxCapacity = Number toNum (maxspace entry)
      in \<lparr> timestamp = ts,
           pool_id = uid entry,
           pool_name = pool_name_of (uid entry),
           current_fill = currentFill,
           max_capacity = maxCapacity,
           occupancy_percent =
             (if js_gt maxCapacity (Fin 0)
              then js_div (js_round (js_mul (js_div currentFill maxCapacity) (Fin 10000))) (Fin 100)
              else Fin 0),
           occupancy_level = calculateOccupancyLevel currentFill maxCapacity \<rparr>)"

text \<open>\<open>data.filter(...).map(...)\<close> of the message handler.\<close>

definition toRecords :: "(string \<Rightarrow> jsnum) \<Rightarrow> string \<Rightarrow> CrowdMonitorEntry list \<Rightarrow> PoolRecord list" where
  "toRecords toNum ts data =
     map (toRecord toNum ts) (filter (\<lambda>entry. uid entry \<in> TRACKED_POOL_IDS) data)"

subsection \<open>Clock readings and their two text forms\<close>

text \<open>
  A clock reading in UTC, broken down into its fields. The worker writes a reading
  with \<open>new Date().toISOString()\<close>; the SQL of the worker compares the stored
  text with the text SQLite's \<open>datetime(...)\<close> returns. Both formats are
  given here for years of four digits. The calendar arithmetic of
  \<open>datetime('now', modifier)\<close> is SQLite's and is not modelled: the reading it
  arrives at is a parameter.
\<close>

record instant =
  year :: nat
  month :: nat
  day :: nat
  hour :: nat
  minute :: nat
  second :: nat
  millis :: nat

definition digit :: "nat \<Rightarrow> char" where
  "digit n = ''0123456789'' ! (n mod 10)"

definition pad2 :: "nat \<Rightarrow> string" where
  "pad2 n = [digit (n div 10), digit n]"

definition pad3 :: "nat \<Rightarrow> string" where
  "pad3 n = [digit (n div 100), digit (n div 10), digit n]"

definition pad4 :: "nat \<Rightarrow> string" where
  "pad4 n = [digit (n div 1000), digit (n div 100), digit (n div 10), digit n]"

text \<open>\<open>Date.prototype.toISOString\<close>: \<open>YYYY-MM-DDTHH:mm:ss.sssZ\<close>.\<close>

definition toISOString :: "instant \<Rightarrow> string" where
  "toISOString i =
     pad4 (year i) @ ''-'' @ pad2 (month i) @ ''-'' @ pad2 (day i) @ ''T'' @
     pad2 (hour i) @ '':'' @ pad2 (minute i) @ '':'' @ pad2 (second i) @ ''.'' @
     pad3 (millis i) @ ''Z''"

text \<open>SQLite's \<open>datetime(...)\<close>: \<open>YYYY-MM-DD HH:MM:SS\<close>.\<close>

definition sqlite_datetime :: "instant \<Rightarrow> string" where
  "sqlite_datetime i =
     pad4 (year i) @ ''-'' @ pad2 (month i) @ ''-'' @ pad2 (day i) @ '' '' @
     pad2 (hour i) @ '':'' @ pad2 (minute i) @ '':'' @ pad2 (second i)"

text \<open>Readings in the order of time, and well-formed readings.\<close>

definition instant_key :: "instant \<Rightarrow> nat list" where
  "instant_key i = [year i, month i, day i, hour i, minute i, second i, millis i]"

definition before :: "instant \<Rightarrow> instant \<Rightarrow> bool" where
  "before a b = (instant_key a < instant_key b)"

definition valid_instant :: "instant \<Rightarrow> bool" where
  "valid_instant i =
     (year i < 10000 \<and> 1 \<le> month i \<and> month i \<le> 12 \<and> 1 \<le> day i \<and> day i \<le> 31 \<and>
      hour i < 24 \<and> minute i < 60 \<and> second i < 60 \<and> millis i < 1000)"

subsection \<open>One scrape over the channel\<close>

datatype error =
    UpgradeFailed       \<comment> \<open>\<open>Error('WebSocket upgrade failed')\<close>\<close>
  | WebSocketTimeout    \<comment> \<open>\<open>Error('WebSocket timeout after 10s')\<close>\<close>
  | HandlerThrew        \<comment> \<open>what \<open>JSON.parse\<close> or the traversal of its result threw\<close>
  | WebSocketError      \<comment> \<open>\<open>Error(`WebSocket error: ...`)\<close>\<close>
  | D1Error             \<comment> \<open>what a failing D1 statement throws\<close>
  | NeverSettled        \<comment> \<open>no error of the program: the promise stays pending\<close>

text \<open>
  What the channel delivers to the two listeners the worker registers: a message, with
  its data and the reading of the clock when the listener runs, or an error event.
\<close>

datatype ws_event = MessageEv string instant | ErrorEv

text \<open>
  What ECMAScript supplies: \<open>Number\<close> on a string, and \<open>JSON.parse\<close>
  followed by the reading of its result as an array of entries (\<open>None\<close> when
  \<open>JSON.parse\<close> or the reading throws).
\<close>

record js_env =
  toNum :: "string \<Rightarrow> jsnum"
  parseEntries :: "string \<Rightarrow> CrowdMonitorEntry list option"

text \<open>
  The state of one call once the listeners are registered: whether the channel has
  been closed by the worker, whether the 10 s timer is still pending, and the settled
  promise. A promise settles once: a later \<open>resolve\<close> or \<open>reject\<close> has
  no effect.
\<close>

record ws_state =
  closed :: bool
  timer_pending :: bool
  outcome :: "(error + PoolRecord list) option"

definition settle :: "error + PoolRecord list \<Rightarrow> ws_state \<Rightarrow> ws_state" where
  "settle r s = (case outcome s of None \<Rightarrow> s\<lparr>outcome := Some r\<rparr> | Some _ \<Rightarrow> s)"

text \<open>The callback of \<open>setTimeout(..., 10_000)\<close>; a cleared timer does not run.\<close>

definition on_timeout :: "ws_state \<Rightarrow> ws_state" where
  "on_timeout s =
     (if timer_pending s
      then settle (Inl WebSocketTimeout) (s\<lparr>timer_pending := False, closed := True\<rparr>)
      else s)"

text \<open>The \<open>message\<close> listener.\<close>

definition on_message :: "js_env \<Rightarrow> string \<Rightarrow> instant \<Rightarrow> ws_state \<Rightarrow> ws_state" where
  "on_message env raw now s =
     (let s1 = s\<lparr>timer_pending := False\<rparr>
      in case parseEntries env raw of
           None \<Rightarrow> settle (Inl HandlerThrew) (s1\<lparr>closed := True\<rparr>)
         | Some entries \<Rightarrow>
             (let ts = toISOString now;
                  records = toRecords (toNum env) ts entries
              in settle (Inr records) (s1\<lparr>closed := True\<rparr>)))"

text \<open>The \<open>error\<close> listener.\<close>

definition on_error :: "ws_state \<Rightarrow> ws_state" where
  "on_error s = settle (Inl WebSocketError) (s\<lparr>timer_pending := False\<rparr>)"

definition on_event :: "js_env \<Rightarrow> ws_event \<Rightarrow> ws_state \<Rightarrow> ws_state" where
  "on_event env ev s =
     (case ev of MessageEv raw now \<Rightarrow> on_message env raw now s | ErrorEv \<Rightarrow> on_error s)"

text \<open>
  The events of the channel come with the milliseconds since the timer was set, in the
  order of delivery. The timer runs before the first event at 10000 ms or later, and at
  the latest when the events are exhausted.
\<close>

definition TIMEOUT_MS :: nat where
  "TIMEOUT_MS = 10000"

fun run_events :: "js_env \<Rightarrow> (nat \<times> ws_event) list \<Rightarrow> ws_state \<Rightarrow> ws_state" where
  "run_events env [] s = on_timeout s"
| "run_events env ((t, ev) # rest) s =
     run_events env rest (on_event env ev (if TIMEOUT_MS \<le> t then on_timeout s else s))"

definition initial_ws :: ws_state where
  "initial_ws = \<lparr> closed = False, timer_pending = True, outcome = None \<rparr>"

text \<open>
  \<open>fetchFromWebSocket\<close>: \<open>upgraded\<close> says whether the response carried a
  socket. The result is the final state of the channel and what the promise was
  settled with; a promise that nothing settled would leave the caller waiting, which
  is \<open>NeverSettled\<close> here (lemma \<open>fetch_settled\<close> below shows that the
  timer excludes it). The sending of \<open>all\<close> after 500 ms has no part in how the
  promise settles and is left out.
\<close>

definition fetchFromWebSocket ::
  "js_env \<Rightarrow> bool \<Rightarrow> (nat \<times> ws_event) list \<Rightarrow> ws_state option \<times> (error + PoolRecord list)" where
  "fetchFromWebSocket env upgraded events =
     (if \<not> upgraded then (None, Inl UpgradeFailed)
      else let s = run_events env events initial_ws
           in (Some s, case outcome s of None \<Rightarrow> Inl NeverSettled | Some r \<Rightarrow> r))"

subsection \<open>The store\<close>

text \<open>
  The table \<open>occupancy\<close> of the D1 database, in the order of insertion. A
  statement against a database that is not \<open>online\<close> throws. \<open>NaN\<close> and
  the infinities are bound as \<open>NULL\<close>, which the \<open>NOT NULL\<close> columns of
  the schema refuse. A batch is one transaction, so a failing batch leaves the table
  as it was.
\<close>

record OccupancyRow = PoolRecord +
  row_id :: nat

record D1Database =
  occupancy :: "OccupancyRow list"
  last_row_id :: nat
  online :: bool

definition insert_row :: "D1Database \<Rightarrow> PoolRecord \<Rightarrow> D1Database" where
  "insert_row db r =
     db\<lparr> occupancy := occupancy db @ [PoolRecord.extend r \<lparr> row_id = Suc (last_row_id db) \<rparr>],
         last_row_id := Suc (last_row_id db) \<rparr>"

fun binds_number :: "jsnum \<Rightarrow> bool" where
  "binds_number (Fin a) = True"
| "binds_number x = False"

definition not_null :: "PoolRecord \<Rightarrow> bool" where
  "not_null r =
     (binds_number (current_fill r) \<and> binds_number (max_capacity r) \<and>
      binds_number (occupancy_percent r) \<and> binds_number (occupancy_level r))"

definition d1_batch_insert :: "D1Database \<Rightarrow> PoolRecord list \<Rightarrow> error + D1Database" where
  "d1_batch_insert db records =
     (if online db \<and> list_all not_null records then Inr (foldl insert_row db records)
      else Inl D1Error)"

datatype console_line =
    NoPoolData            \<comment> \<open>\<open>No pool data received\<close>\<close>
  | Stored nat string     \<comment> \<open>\<open>Stored n pool records at ts\<close>\<close>
  | CleanedUp nat         \<comment> \<open>\<open>Cleaned up n old records\<close>\<close>

text \<open>\<open>scrapeAndStore\<close>: the database after the call, the console, the result.\<close>

definition scrapeAndStore ::
  "js_env \<Rightarrow> bool \<Rightarrow> (nat \<times> ws_event) list \<Rightarrow> D1Database
     \<Rightarrow> D1Database \<times> console_line list \<times> (error + nat)" where
  "scrapeAndStore env upgraded events db =
     (case snd (fetchFromWebSocket env upgraded events) of
        Inl e \<Rightarrow> (db, [], Inl e)
      | Inr records \<Rightarrow>
          (if length records = 0 then (db, [NoPoolData], Inr 0)
           else case d1_batch_insert db records of
                  Inl e \<Rightarrow> (db, [], Inl e)
                | Inr db' \<Rightarrow>
                    (db', [Stored (length records) (timestamp (hd records))],
                     Inr (length records))))"

text \<open>
  \<open>cleanupOldData\<close>: \<open>cutoff\<close> is the reading that
  \<open>datetime('now', '-90 days')\<close> arrives at. The comparison of the
  \<open>DELETE\<close> is on the two texts, byte by byte (the column is \<open>TEXT\<close>).
  The result is the database after the call, \<open>result.meta.changes\<close> and the
  console.
\<close>

definition cleanupOldData ::
  "instant \<Rightarrow> D1Database \<Rightarrow> error + D1Database \<times> nat \<times> console_line list" where
  "cleanupOldData cutoff db =
     (if \<not> online db then Inl D1Error
      else let kept = filter (\<lambda>r. \<not> timestamp r < sqlite_datetime cutoff) (occupancy db);
               changes = length (occupancy db) - length kept
           in Inr (db\<lparr>occupancy := kept\<rparr>, changes,
                   if 0 < changes then [CleanedUp changes] else []))"

section \<open>The query API\<close>

subsection \<open>Responses\<close>

text \<open>
  The value handed to \<open>JSON.stringify\<close>. The body of a response is the text
  \<open>JSON.stringify\<close> makes of such a value, or no body at all.
\<close>

datatype json = JNull | JNum jsnum | JStr string | JArr "json list" | JObj "(string \<times> json) list"

record Response =
  status :: nat
  headers :: "(string \<times> string) list"
  body :: "json option"

definition CORS_HEADERS :: "(string \<times> string) list" where
  "CORS_HEADERS =
     [(''Access-Control-Allow-Origin'', ''*''),
      (''Access-Control-Allow-Methods'', ''GET, OPTIONS''),
      (''Access-Control-Allow-Headers'', ''Content-Type'')]"

definition json_response :: "json \<Rightarrow> nat \<Rightarrow> Response" where
  "json_response data st =
     \<lparr> status = st,
       headers = (''Content-Type'', ''application/json'') # CORS_HEADERS,
       body = Some data \<rparr>"

definition handleOptions :: Response where
  "handleOptions = \<lparr> status = 204, headers = CORS_HEADERS, body = None \<rparr>"

text \<open>A row of \<open>SELECT *\<close>, column by column.\<close>

definition row_json :: "OccupancyRow \<Rightarrow> json" where
  "row_json r =
     JObj [(''id'', JNum (Fin (of_nat (row_id r)))),
           (''timestamp'', JStr (timestamp r)),
           (''pool_id'', JStr (pool_id r)),
           (''pool_name'', JStr (pool_name r)),
           (''current_fill'', JNum (current_fill r)),
           (''max_capacity'', JNum (max_capacity r)),
           (''occupancy_percent'', JNum (occupancy_percent r)),
           (''occupancy_level'', JNum (occupancy_level r))]"

subsection \<open>GET /api/current\<close>

text \<open>\<open>SELECT MAX(timestamp) FROM occupancy\<close>: \<open>NULL\<close> on an empty table.\<close>

fun max_timestamp :: "OccupancyRow list \<Rightarrow> string option" where
  "max_timestamp [] = None"
| "max_timestamp (r # rs) =
     (case max_timestamp rs of
        None \<Rightarrow> Some (timestamp r)
      | Some m \<Rightarrow> Some (max (timestamp r) m))"

text \<open>
  The query of \<open>handleCurrent\<close>. An equality with \<open>NULL\<close> holds of no row.
  \<open>ORDER BY pool_name\<close> is a sort on the name; rows of one name stay in the order
  of the table.
\<close>

definition latestSnapshot :: "D1Database \<Rightarrow> error + OccupancyRow list" where
  "latestSnapshot db =
     (if \<not> online db then Inl D1Error
      else Inr (sort_key pool_name
                  (filter (\<lambda>r. Some (timestamp r) = max_timestamp (occupancy db))
                     (occupancy db))))"

definition handleCurrent :: "D1Database \<Rightarrow> error + Response" where
  "handleCurrent db =
     (case latestSnapshot db of
        Inl e \<Rightarrow> Inl e
      | Inr results \<Rightarrow> Inr (json_response (JArr (map row_json results)) 200))"

subsection \<open>GET /api/history\<close>

text \<open>
  \<open>parseInt(s, 10)\<close>: leading white space is skipped, then an optional sign,
  then the longest run of decimal digits is read; with no digit the result is
  \<open>NaN\<close>, otherwise the binary64 value nearest to the integer read. A string
  is the sequence of the bytes of its UTF-8 form; the white space and line
  terminators of ECMAScript are six ASCII characters, U+00A0, U+1680, U+2000 to
  U+200A, U+2028, U+2029, U+202F, U+205F, U+3000 and U+FEFF.
\<close>

definition space_prefix :: "string \<Rightarrow> nat" where
  "space_prefix s =
     (if take 1 s \<in> set [[CHR '' ''], [CHR 0x09], [CHR 0x0A], [CHR 0x0B], [CHR 0x0C], [CHR 0x0D]]
      then 1
      else if take 2 s = [CHR 0xC2, CHR 0xA0] then 2
      else if take 3 s \<in> set
          [[CHR 0xE1, CHR 0x9A, CHR 0x80],
           [CHR 0xE2, CHR 0x80, CHR 0x80], [CHR 0xE2, CHR 0x80, CHR 0x81],
           [CHR 0xE2, CHR 0x80, CHR 0x82], [CHR 0xE2, CHR 0x80, CHR 0x83],
           [CHR 0xE2, CHR 0x80, CHR 0x84], [CHR 0xE2, CHR 0x80, CHR 0x85],
           [CHR 0xE2, CHR 0x80, CHR 0x86], [CHR 0xE2, CHR 0x80, CHR 0x87],
           [CHR 0xE2, CHR 0x80, CHR 0x88], [CHR 0xE2, CHR 0x80, CHR 0x89],
           [CHR 0xE2, CHR 0x80, CHR 0x8A],
           [CHR 0xE2, CHR 0x80, CHR 0xA8], [CHR 0xE2, CHR 0x80, CHR 0xA9],
           [CHR 0xE2, CHR 0x80, CHR 0xAF], [CHR 0xE2, CHR 0x81, CHR 0x9F],
           [CHR 0xE3, CHR 0x80, CHR 0x80], [CHR 0xEF, CHR 0xBB, CHR 0xBF]]
      then 3
      else 0)"

fun skip_space :: "string \<Rightarrow> string" where
  "skip_space [] = []"
| "skip_space (c # cs) =
     (if space_prefix (c # cs) = 0 then c # cs
      else skip_space (drop (space_prefix (c # cs) - 1) cs))"

definition is_digit :: "char \<Rightarrow> bool" where
  "is_digit c = (CHR ''0'' \<le> c \<and> c \<le> CHR ''9'')"

definition digit_value :: "char \<Rightarrow> int" where
  "digit_value c = of_char c - 48"

definition digits_value :: "string \<Rightarrow> int" where
  "digits_value ds = foldl (\<lambda>a c. 10 * a + digit_value c) 0 ds"

definition parseInt :: "string \<Rightarrow> jsnum" where
  "parseInt s =
     (let s1 = skip_space s;
          neg = (s1 \<noteq> [] \<and> hd s1 = CHR ''-'');
          s2 = (if s1 \<noteq> [] \<and> (hd s1 = CHR ''-'' \<or> hd s1 = CHR ''+'') then tl s1 else s1);
          ds = takeWhile is_digit s2
      in if ds = [] then NaN
         else round_double
                (of_int (if neg then - digits_value ds else digits_value ds)))"

record Request =
  http_method :: string
  pathname :: string
  searchParams :: "(string \<times> string) list"

text \<open>\<open>url.searchParams.get(name) || dflt\<close>: the first value, unless absent or empty.\<close>

definition param_or :: "(string \<times> string) list \<Rightarrow> string \<Rightarrow> string option \<Rightarrow> string option" where
  "param_or ps name dflt =
     (case map_of ps name of
        None \<Rightarrow> dflt
      | Some v \<Rightarrow> (if v = [] then dflt else Some v))"

definition requestedHours :: "Request \<Rightarrow> jsnum" where
  "requestedHours req =
     parseInt (case param_or (searchParams req) ''hours'' (Some ''24'') of
                 None \<Rightarrow> ''24'' | Some v \<Rightarrow> v)"

definition clampedHours :: "Request \<Rightarrow> jsnum" where
  "clampedHours req = js_min (js_max (requestedHours req) (Fin 1)) (Fin (168 * 4))"

text \<open>
  The query of \<open>handleHistory\<close>. \<open>since h\<close> is the reading that
  \<open>datetime('now', '-' || h || ' hours')\<close> arrives at for the bound value
  \<open>h\<close>, \<open>None\<close> when that is \<open>NULL\<close>; a comparison with \<open>NULL\<close>
  holds of no row.
\<close>

definition rangeQuery ::
  "(jsnum \<Rightarrow> instant option) \<Rightarrow> D1Database \<Rightarrow> jsnum \<Rightarrow> string option \<Rightarrow> error + OccupancyRow list" where
  "rangeQuery since db hours pool =
     (if \<not> online db then Inl D1Error
      else case since hours of
             None \<Rightarrow> Inr []
           | Some c \<Rightarrow>
               Inr (sort_key timestamp
                      (filter (\<lambda>r. sqlite_datetime c \<le> timestamp r \<and>
                                    (pool = None \<or> Some (pool_id r) = pool))
                         (occupancy db))))"

definition handleHistory ::
  "(jsnum \<Rightarrow> instant option) \<Rightarrow> D1Database \<Rightarrow> Request \<Rightarrow> error + Response" where
  "handleHistory since db req =
     (case rangeQuery since db (clampedHours req) (param_or (searchParams req) ''pool'' None) of
        Inl e \<Rightarrow> Inl e
      | Inr results \<Rightarrow> Inr (json_response (JArr (map row_json results)) 200))"

subsection \<open>GET /api/pools and the router\<close>

definition handlePools :: Response where
  "handlePools =
     json_response
       (JArr (map (\<lambda>(i, name).
                 JObj [(''pool_id'', JStr i),
                       (''pool_name'', JStr name),
                       (''type'', JStr (if i \<in> set [''SSD-4'', ''SSD-6'', ''SSD-7'']
                                        then ''indoor'' else ''outdoor''))])
               POOLS))
       200"

text \<open>
  \<open>handleRequest\<close>. It has no handler for what a query throws: the rejection of
  \<open>handleCurrent\<close> or \<open>handleHistory\<close> is the rejection of the router
  (\<open>Inl\<close>), and no response is made.
\<close>

definition handleRequest ::
  "(jsnum \<Rightarrow> instant option) \<Rightarrow> Request \<Rightarrow> D1Database \<Rightarrow> error + Response" where
  "handleRequest since req db =
     (if http_method req = ''OPTIONS'' then Inr handleOptions
      else if http_method req \<noteq> ''GET''
        then Inr (json_response (JObj [(''error'', JStr ''Method not allowed'')]) 405)
      else if pathname req = ''/api/current'' then handleCurrent db
      else if pathname req = ''/api/history'' then handleHistory since db req
      else if pathname req = ''/api/pools'' then Inr handlePools
      else Inr (json_response (JObj [(''error'', JStr ''Not found'')]) 404))"

text \<open>
  The shape of a response of the router, for the properties below: the CORS headers,
  one of the four statuses the router uses, and either no body (status 204) or a JSON
  body declared as \<open>application/json\<close>.
\<close>

definition well_formed :: "Response \<Rightarrow> bool" where
  "well_formed resp =
     (set CORS_HEADERS \<subseteq> set (headers resp) \<and> status resp \<in> {200, 204, 404, 405} \<and>
      (if status resp = 204 then body resp = None
       else body resp \<noteq> None \<and>
            map_of (headers resp) ''Content-Type'' = Some ''application/json''))"

section \<open>Concrete inputs\<close>

definition entry_50_of_200 :: CrowdMonitorEntry where
  "entry_50_of_200 = \<lparr> uid = ''SSD-4'', maxspace = Num (Fin 200), currentfill = Str ''50'' \<rparr>"

definition entry_57_of_800 :: CrowdMonitorEntry where
  "entry_57_of_800 = \<lparr> uid = ''SSD-7'', maxspace = Num (Fin 800), currentfill = Num (Fin 57) \<rparr>"

definition entry_minus7_of_800 :: CrowdMonitorEntry where
  "entry_minus7_of_800 =
     \<lparr> uid = ''SSD-7'', maxspace = Num (Fin 800), currentfill = Num (Fin (- 7)) \<rparr>"

definition entry_7_of_0 :: CrowdMonitorEntry where
  "entry_7_of_0 = \<lparr> uid = ''fb012'', maxspace = Num (Fin 0), currentfill = Num (Fin 7) \<rparr>"

definition entry_24999_of_100000 :: CrowdMonitorEntry where
  "entry_24999_of_100000 =
     \<lparr> uid = ''SSD-4'', maxspace = Num (Fin 100000), currentfill = Num (Fin 24999) \<rparr>"

definition entry_minus1_of_100000 :: CrowdMonitorEntry where
  "entry_minus1_of_100000 =
     \<lparr> uid = ''SSD-4'', maxspace = Num (Fin 100000), currentfill = Num (Fin (- 1)) \<rparr>"

definition entry_tracked :: CrowdMonitorEntry where
  "entry_tracked = \<lparr> uid = ''SSD-4'', maxspace = Num (Fin 500), currentfill = Str ''125'' \<rparr>"

definition entry_untracked :: CrowdMonitorEntry where
  "entry_untracked = \<lparr> uid = ''SSD-99'', maxspace = Num (Fin 80), currentfill = Num (Fin 20) \<rparr>"

definition env0 :: js_env where
  "env0 = \<lparr> toNum = (\<lambda>s. if s = ''125'' then Fin 125 else NaN),
            parseEntries = (\<lambda>raw. if raw = ''payload'' then Some [entry_untracked, entry_tracked]
                                   else None) \<rparr>"

definition now0 :: instant where
  "now0 = \<lparr> year = 2026, month = 11, day = 3, hour = 1, minute = 25, second = 0, millis = 712 \<rparr>"

definition db0 :: D1Database where
  "db0 = \<lparr> occupancy = [], last_row_id = 0, online = True \<rparr>"

definition record0 :: PoolRecord where
  "record0 = \<lparr> timestamp = ''2026-11-03T01:25:00.712Z'', pool_id = ''SSD-4'',
               pool_name = ''Hallenbad City'', current_fill = Fin 125, max_capacity = Fin 500,
               occupancy_percent = Fin 25, occupancy_level = Fin 2 \<rparr>"

definition entry_enge :: CrowdMonitorEntry where
  "entry_enge = \<lparr> uid = ''BADI-1'', maxspace = Num (Fin 200), currentfill = Num (Fin 150) \<rparr>"

definition env1 :: js_env where
  "env1 = \<lparr> toNum = (\<lambda>s. if s = ''125'' then Fin 125 else NaN),
            parseEntries = (\<lambda>raw. if raw = ''snapshot''
                                   then Some [entry_tracked, entry_untracked, entry_enge]
                                   else None) \<rparr>"

definition record_enge :: PoolRecord where
  "record_enge = \<lparr> timestamp = ''2026-11-03T01:25:00.712Z'', pool_id = ''BADI-1'',
               pool_name = ''Enge'', current_fill = Fin 150, max_capacity = Fin 200,
               occupancy_percent = Fin 75, occupancy_level = Fin 4 \<rparr>"

definition db_two :: D1Database where
  "db_two = \<lparr> occupancy = [PoolRecord.extend record0 \<lparr> row_id = 1 \<rparr>,
                           PoolRecord.extend record_enge \<lparr> row_id = 2 \<rparr>],
              last_row_id = 2, online = True \<rparr>"

definition row_old :: OccupancyRow where
  "row_old = \<lparr> timestamp = ''2026-11-03T01:20:00.650Z'', pool_id = ''SSD-10'',
               pool_name = ''Utoquai'', current_fill = Fin 40, max_capacity = Fin 400,
               occupancy_percent = Fin 10, occupancy_level = Fin 1, row_id = 1 \<rparr>"

definition row_utoquai :: OccupancyRow where
  "row_utoquai = \<lparr> timestamp = ''2026-11-03T01:25:00.712Z'', pool_id = ''SSD-10'',
               pool_name = ''Utoquai'', current_fill = Fin 60, max_capacity = Fin 400,
               occupancy_percent = Fin 15, occupancy_level = Fin 1, row_id = 2 \<rparr>"

definition row_enge :: OccupancyRow where
  "row_enge = \<lparr> timestamp = ''2026-11-03T01:25:00.712Z'', pool_id = ''BADI-1'',
               pool_name = ''Enge'', current_fill = Fin 150, max_capacity = Fin 200,
               occupancy_percent = Fin 75, occupancy_level = Fin 4, row_id = 3 \<rparr>"

definition db2 :: D1Database where
  "db2 = \<lparr> occupancy = [row_old, row_utoquai, row_enge], last_row_id = 3, online = True \<rparr>"

definition req_current :: Request where
  "req_current = \<lparr> http_method = ''GET'', pathname = ''/api/current'', searchParams = [] \<rparr>"

definition db_offline :: D1Database where
  "db_offline = \<lparr> occupancy = [row_old], last_row_id = 1, online = False \<rparr>"

definition resp_current :: Response where
  "resp_current = json_response (JArr [row_json row_enge, row_json row_utoquai]) 200"

definition req_hours_abc :: Request where
  "req_hours_abc =
     \<lparr> http_method = ''GET'', pathname = ''/api/history'', searchParams = [(''hours'', ''abc'')] \<rparr>"

definition t_midnight :: instant where
  "t_midnight = \<lparr> year = 2026, month = 8, day = 5, hour = 0, minute = 0, second = 0, millis = 900 \<rparr>"

definition cutoff0 :: instant where
  "cutoff0 = \<lparr> year = 2026, month = 8, day = 5, hour = 0, minute = 0, second = 2, millis = 0 \<rparr>"

definition row_midnight :: OccupancyRow where
  "row_midnight = \<lparr> timestamp = ''2026-08-05T00:00:00.900Z'', pool_id = ''SSD-4'',
               pool_name = ''Hallenbad City'', current_fill = Fin 0, max_capacity = Fin 500,
               occupancy_percent = Fin 0, occupancy_level = Fin 1, row_id = 1 \<rparr>"

definition db_midnight :: D1Database where
  "db_midnight = \<lparr> occupancy = [row_midnight], last_row_id = 1, online = True \<rparr>"

section \<open>Properties of the derived fields\<close>

lemma js_min_Fin: "js_min (Fin a) (Fin b) = Fin (min a b)"
  by (simp add: js_min_def min_def)

lemma js_max_Fin: "js_max (Fin a) (Fin b) = Fin (max a b)"
  by (simp add: js_max_def max_def)

lemma toRecords_mem:
  "entry \<in> set data \<Longrightarrow> uid entry \<in> TRACKED_POOL_IDS \<Longrightarrow>
     toRecord tn ts entry \<in> set (toRecords tn ts data)"
  by (simp add: toRecords_def)

lemma toRecord_fields:
  "current_fill (toRecord tn ts entry) = Number tn (currentfill entry)"
  "max_capacity (toRecord tn ts entry) = Number tn (maxspace entry)"
  "timestamp (toRecord tn ts entry) = ts"
  "pool_id (toRecord tn ts entry) = uid entry"
  by (simp_all add: toRecord_def Let_def)

lemma js_le_not_gt: "js_le c (Fin 0) \<Longrightarrow> \<not> js_gt c (Fin 0)"
  by (cases c) (simp_all add: js_gt_def)

lemma js_lt_not_ge: "js_lt c (Fin 0) \<Longrightarrow> \<not> js_ge c (Fin 0)"
  by (cases c) (simp_all add: js_ge_def)

text \<open>
  The rounding at work: 57 of 800 is 7.125 percent, but the product computed is
  712.4999999999999, so 7.12 is stored; and the quotient of 3.9 by 5.2 is exactly
  0.75, which is level 4.
\<close>

lemma percent_57_of_800:
  "js_div (js_round (js_mul (js_div (Fin 57) (Fin 800)) (Fin 10000))) (Fin 100) =
     js_div (Fin 712) (Fin 100)"
  by code_simp

lemma level_39_of_52:
  "calculateOccupancyLevel (round_double (39 / 10)) (round_double (52 / 10)) = Fin 4"
  by code_simp

lemma level_at_rounded_quotient:
  "js_div (Fin 3921828740422082) (Fin 5229104987229443) = Fin (3 / 4) \<and>
   calculateOccupancyLevel (Fin 3921828740422082) (Fin 5229104987229443) = Fin 4"
  by code_simp

text \<open>
  Claim C4. Every tracked entry of a payload yields a record whose
  \<open>occupancy_percent\<close> is \<open>round((fill / capacity) * 10000) / 100\<close>, in the
  arithmetic of JavaScript, when the capacity is positive, and \<open>0\<close> when the
  capacity is zero or negative, whatever the fill; \<open>fill\<close> and \<open>capacity\<close>
  are the two fields after \<open>Number(...)\<close>.
\<close>

theorem occupancy_percent_rule:
  assumes "entry \<in> set data" and "uid entry \<in> TRACKED_POOL_IDS"
    and "r = toRecord tn ts entry"
    and "fill = Number tn (currentfill entry)"
    and "cap = Number tn (maxspace entry)"
  shows "r \<in> set (toRecords tn ts data) \<and> current_fill r = fill \<and> max_capacity r = cap \<and>
     (js_gt cap (Fin 0) \<longrightarrow>
        occupancy_percent r = js_div (js_round (js_mul (js_div fill cap) (Fin 10000))) (Fin 100)) \<and>
     (js_le cap (Fin 0) \<longrightarrow> occupancy_percent r = Fin 0)"
proof (intro conjI)
  show "r \<in> set (toRecords tn ts data)"
    using assms(1,2,3) by (simp add: toRecords_mem)
  show "current_fill r = fill" and "max_capacity r = cap"
    using assms(3,4,5) by (simp_all add: toRecord_fields)
  show "js_gt cap (Fin 0) \<longrightarrow>
           occupancy_percent r = js_div (js_round (js_mul (js_div fill cap) (Fin 10000))) (Fin 100)"
    using assms(3,4,5) by (simp add: toRecord_def Let_def)
  show "js_le cap (Fin 0) \<longrightarrow> occupancy_percent r = Fin 0"
    using assms(3,5) by (auto simp: toRecord_def Let_def dest: js_le_not_gt)
qed

text \<open>
  The rule at fill 57 of capacity 800, where 7.12 is stored and not 7.13; at fill 50
  (given as the string \<open>50\<close>) of capacity 200: 25 percent; and at fill 7 of
  capacity 0: 0 percent.
\<close>

theorem occupancy_percent_rule_witness:
  "js_gt (Fin 800) (Fin 0) \<and>
   occupancy_percent (toRecord (\<lambda>s. Fin 50) ''T'' entry_57_of_800) = js_div (Fin 712) (Fin 100) \<and>
   js_div (Fin 712) (Fin 100) \<noteq> js_div (Fin 713) (Fin 100) \<and>
   js_gt (Fin 200) (Fin 0) \<and>
   occupancy_percent (toRecord (\<lambda>s. Fin 50) ''T'' entry_50_of_200) = Fin 25 \<and>
   js_le (Fin 0) (Fin 0) \<and>
   occupancy_percent (toRecord (\<lambda>s. Fin 50) ''T'' entry_7_of_0) = Fin 0"
proof -
  have "entry_57_of_800 \<in> set [entry_57_of_800]"
    by simp
  moreover have "uid entry_57_of_800 \<in> TRACKED_POOL_IDS"
    by code_simp
  moreover have "Fin 57 = Number (\<lambda>s. Fin 50) (currentfill entry_57_of_800)"
    and "Fin 800 = Number (\<lambda>s. Fin 50) (maxspace entry_57_of_800)"
    by (simp_all add: entry_57_of_800_def)
  ultimately have "js_gt (Fin 800) (Fin 0) \<longrightarrow>
      occupancy_percent (toRecord (\<lambda>s. Fin 50) ''T'' entry_57_of_800) =
      js_div (js_round (js_mul (js_div (Fin 57) (Fin 800)) (Fin 10000))) (Fin 100)"
    using occupancy_percent_rule [OF _ _ refl] by blast
  moreover have "js_gt (Fin 800) (Fin 0)"
    by (simp add: js_gt_def)
  ultimately have "occupancy_percent (toRecord (\<lambda>s. Fin 50) ''T'' entry_57_of_800) =
      js_div (js_round (js_mul (js_div (Fin 57) (Fin 800)) (Fin 10000))) (Fin 100)"
    by blast
  then have rounded:
    "occupancy_percent (toRecord (\<lambda>s. Fin 50) ''T'' entry_57_of_800) = js_div (Fin 712) (Fin 100)"
    by (simp only: percent_57_of_800)
  have "entry_50_of_200 \<in> set [entry_50_of_200]"
    by simp
  moreover have "uid entry_50_of_200 \<in> TRACKED_POOL_IDS"
    by code_simp
  moreover have "Fin 50 = Number (\<lambda>s. Fin 50) (currentfill entry_50_of_200)"
    and "Fin 200 = Number (\<lambda>s. Fin 50) (maxspace entry_50_of_200)"
    by (simp_all add: entry_50_of_200_def)
  ultimately have "js_gt (Fin 200) (Fin 0) \<longrightarrow>
      occupancy_percent (toRecord (\<lambda>s. Fin 50) ''T'' entry_50_of_200) =
      js_div (js_round (js_mul (js_div (Fin 50) (Fin 200)) (Fin 10000))) (Fin 100)"
    using occupancy_percent_rule [OF _ _ refl] by blast
  moreover have "js_div (js_round (js_mul (js_div (Fin 50) (Fin 200)) (Fin 10000))) (Fin 100) = Fin 25"
    by code_simp
  ultimately have positive:
    "occupancy_percent (toRecord (\<lambda>s. Fin 50) ''T'' entry_50_of_200) = Fin 25"
    by (simp add: js_gt_def)
  have "entry_7_of_0 \<in> set [entry_7_of_0]"
    by simp
  moreover have "uid entry_7_of_0 \<in> TRACKED_POOL_IDS"
    by code_simp
  moreover have "Fin 7 = Number (\<lambda>s. Fin 50) (currentfill entry_7_of_0)"
    and "Fin 0 = Number (\<lambda>s. Fin 50) (maxspace entry_7_of_0)"
    by (simp_all add: entry_7_of_0_def)
  ultimately have "js_le (Fin 0) (Fin 0) \<longrightarrow>
      occupancy_percent (toRecord (\<lambda>s. Fin 50) ''T'' entry_7_of_0) = Fin 0"
    using occupancy_percent_rule [OF _ _ refl] by blast
  moreover have "js_div (Fin 712) (Fin 100) \<noteq> js_div (Fin 713) (Fin 100)"
    by code_simp
  ultimately show ?thesis
    using rounded positive by (simp add: js_gt_def)
qed

text \<open>
  Claim C1, amended. With a positive capacity and a fill that is not negative, the
  \<open>occupancy_level\<close> of the record is \<open>min(4, floor(p / 25) + 1)\<close>, in the
  arithmetic of JavaScript, where \<open>p = (fill / capacity) * 100\<close> is the
  percentage before the rounding to two decimals, not the stored
  \<open>occupancy_percent\<close>; with a capacity that is zero or negative, or a negative
  fill, the level is \<open>0\<close>.
\<close>

theorem occupancy_level_rule:
  assumes "entry \<in> set data" and "uid entry \<in> TRACKED_POOL_IDS"
    and "r = toRecord tn ts entry"
    and "fill = Number tn (currentfill entry)"
    and "cap = Number tn (maxspace entry)"
  shows "r \<in> set (toRecords tn ts data) \<and> current_fill r = fill \<and> max_capacity r = cap \<and>
     (js_gt cap (Fin 0) \<and> js_ge fill (Fin 0) \<longrightarrow>
        occupancy_level r =
          js_min (Fin 4)
            (js_add (js_floor (js_div (js_mul (js_div fill cap) (Fin 100)) (Fin 25))) (Fin 1))) \<and>
     (js_le cap (Fin 0) \<or> js_lt fill (Fin 0) \<longrightarrow> occupancy_level r = Fin 0)"
proof (intro conjI)
  have lvl: "occupancy_level r = calculateOccupancyLevel fill cap"
    using assms(3,4,5) by (simp add: toRecord_def Let_def)
  show "r \<in> set (toRecords tn ts data)"
    using assms(1,2,3) by (simp add: toRecords_mem)
  show "current_fill r = fill" and "max_capacity r = cap"
    using assms(3,4,5) by (simp_all add: toRecord_fields)
  show "js_gt cap (Fin 0) \<and> js_ge fill (Fin 0) \<longrightarrow>
        occupancy_level r =
          js_min (Fin 4)
            (js_add (js_floor (js_div (js_mul (js_div fill cap) (Fin 100)) (Fin 25))) (Fin 1))"
    unfolding lvl
    by (auto simp: calculateOccupancyLevel_def Let_def dest: js_le_not_gt js_lt_not_ge)
  show "js_le cap (Fin 0) \<or> js_lt fill (Fin 0) \<longrightarrow> occupancy_level r = Fin 0"
    unfolding lvl by (simp add: calculateOccupancyLevel_def)
qed

text \<open>
  The rule at fill 24999 of capacity 100000: 24.999 percent is level 1; and at fill 7
  of capacity 0: level 0.
\<close>

theorem occupancy_level_rule_witness:
  "js_gt (Fin 100000) (Fin 0) \<and> js_ge (Fin 24999) (Fin 0) \<and>
   occupancy_level (toRecord (\<lambda>s. NaN) ''T'' entry_24999_of_100000) = Fin 1 \<and>
   js_le (Fin 0) (Fin 0) \<and>
   occupancy_level (toRecord (\<lambda>s. NaN) ''T'' entry_7_of_0) = Fin 0"
proof -
  have "entry_24999_of_100000 \<in> set [entry_24999_of_100000]"
    by simp
  moreover have "uid entry_24999_of_100000 \<in> TRACKED_POOL_IDS"
    by code_simp
  moreover have "Fin 24999 = Number (\<lambda>s. NaN) (currentfill entry_24999_of_100000)"
    and "Fin 100000 = Number (\<lambda>s. NaN) (maxspace entry_24999_of_100000)"
    by (simp_all add: entry_24999_of_100000_def)
  ultimately have "js_gt (Fin 100000) (Fin 0) \<and> js_ge (Fin 24999) (Fin 0) \<longrightarrow>
      occupancy_level (toRecord (\<lambda>s. NaN) ''T'' entry_24999_of_100000) =
      js_min (Fin 4)
        (js_add (js_floor (js_div (js_mul (js_div (Fin 24999) (Fin 100000)) (Fin 100)) (Fin 25)))
           (Fin 1))"
    using occupancy_level_rule [OF _ _ refl] by blast
  moreover have "js_min (Fin 4)
        (js_add (js_floor (js_div (js_mul (js_div (Fin 24999) (Fin 100000)) (Fin 100)) (Fin 25)))
           (Fin 1)) = Fin 1"
    by code_simp
  ultimately have positive:
    "occupancy_level (toRecord (\<lambda>s. NaN) ''T'' entry_24999_of_100000) = Fin 1"
    by (simp add: js_gt_def js_ge_def)
  have "entry_7_of_0 \<in> set [entry_7_of_0]"
    by simp
  moreover have "uid entry_7_of_0 \<in> TRACKED_POOL_IDS"
    by code_simp
  moreover have "Fin 7 = Number (\<lambda>s. NaN) (currentfill entry_7_of_0)"
    and "Fin 0 = Number (\<lambda>s. NaN) (maxspace entry_7_of_0)"
    by (simp_all add: entry_7_of_0_def)
  ultimately have "js_le (Fin 0) (Fin 0) \<or> js_lt (Fin 7) (Fin 0) \<longrightarrow>
      occupancy_level (toRecord (\<lambda>s. NaN) ''T'' entry_7_of_0) = Fin 0"
    using occupancy_level_rule [OF _ _ refl] by blast
  then show ?thesis
    using positive by (simp add: js_gt_def js_ge_def)
qed

text \<open>
  Claim C1 as stated fails at fill 24999 of capacity 100000: the stored
  \<open>occupancy_percent\<close> is \<open>round(2499.9) / 100 = 25\<close>, from which
  \<open>min(4, floor(25 / 25) + 1)\<close> is \<open>2\<close>, while the stored level is \<open>1\<close>.
\<close>

theorem level_of_rounded_percent_counterexample:
  "js_gt (max_capacity (toRecord (\<lambda>s. NaN) ''T'' entry_24999_of_100000)) (Fin 0) \<and>
   js_ge (current_fill (toRecord (\<lambda>s. NaN) ''T'' entry_24999_of_100000)) (Fin 0) \<and>
   occupancy_percent (toRecord (\<lambda>s. NaN) ''T'' entry_24999_of_100000) = Fin 25 \<and>
   js_min (Fin 4)
     (js_add
        (js_floor (js_div (occupancy_percent (toRecord (\<lambda>s. NaN) ''T'' entry_24999_of_100000))
           (Fin 25)))
        (Fin 1)) = Fin 2 \<and>
   occupancy_level (toRecord (\<lambda>s. NaN) ''T'' entry_24999_of_100000) = Fin 1"
  by code_simp

text \<open>Rounding keeps the sign: what is not positive stays so through each operation.\<close>

lemma pow2_pos: "0 < pow2 k"
  by (simp add: pow2_def)

lemma round_half_even_nonneg: "0 \<le> x \<Longrightarrow> 0 \<le> round_half_even x"
proof -
  assume "0 \<le> x"
  then have "0 \<le> \<lfloor>x\<rfloor>"
    by simp
  then show ?thesis
    by (simp add: round_half_even_def Let_def)
qed

lemma round_pos_nonneg: "0 < q \<Longrightarrow> js_le (Fin 0) (round_pos q)"
proof -
  assume q: "0 < q"
  define e where "e = max (binary_exponent q) (- 1022)"
  have "0 \<le> q / pow2 (e - 52)"
    using q pow2_pos [of "e - 52"] by simp
  then have "0 \<le> round_half_even (q / pow2 (e - 52))"
    by (rule round_half_even_nonneg)
  then have "0 \<le> rat_of_int (round_half_even (q / pow2 (e - 52))) * pow2 (e - 52)"
    using pow2_pos [of "e - 52"] by simp
  then show ?thesis
    unfolding round_pos_def Let_def e_def by simp
qed

lemma js_neg_nonpos: "js_le (Fin 0) x \<Longrightarrow> js_le (js_neg x) (Fin 0)"
  by (cases x) simp_all

lemma round_double_nonpos: "q \<le> 0 \<Longrightarrow> js_le (round_double q) (Fin 0)"
  by (auto simp: round_double_def intro!: js_neg_nonpos round_pos_nonneg)

lemma js_div_nonpos: "js_le x (Fin 0) \<Longrightarrow> 0 < k \<Longrightarrow> js_le (js_div x (Fin k)) (Fin 0)"
  by (cases x) (auto simp: divide_le_0_iff intro!: round_double_nonpos)

lemma js_mul_nonpos: "js_le x (Fin 0) \<Longrightarrow> 0 < k \<Longrightarrow> js_le (js_mul x (Fin k)) (Fin 0)"
  by (cases x) (auto simp: mult_le_0_iff intro!: round_double_nonpos)

lemma js_round_nonpos: "js_le x (Fin 0) \<Longrightarrow> js_le (js_round x) (Fin 0)"
  by (cases x) (auto simp: floor_le_iff)

text \<open>
  Claim C10, amended. With a positive capacity and a negative fill, the record has
  \<open>occupancy_percent = round((fill / capacity) * 10000) / 100\<close>, in the arithmetic
  of JavaScript, which is not zeroed by the rule for the capacity, and
  \<open>occupancy_level = 0\<close>. For finite values that percentage is never positive: it
  is negative, or zero where the rounding arrives at zero.
\<close>

theorem negative_fill_rule:
  assumes "entry \<in> set data" and "uid entry \<in> TRACKED_POOL_IDS"
    and "r = toRecord tn ts entry"
    and "fill = Number tn (currentfill entry)"
    and "cap = Number tn (maxspace entry)"
  shows "r \<in> set (toRecords tn ts data) \<and>
     (js_gt cap (Fin 0) \<and> js_lt fill (Fin 0) \<longrightarrow>
        occupancy_percent r = js_div (js_round (js_mul (js_div fill cap) (Fin 10000))) (Fin 100) \<and>
        occupancy_level r = Fin 0) \<and>
     (\<forall>f c. fill = Fin f \<and> cap = Fin c \<and> 0 < c \<and> f < 0 \<longrightarrow>
        js_le (occupancy_percent r) (Fin 0))"
proof (intro conjI allI impI)
  show "r \<in> set (toRecords tn ts data)"
    using assms(1,2,3) by (simp add: toRecords_mem)
next
  assume "js_gt cap (Fin 0) \<and> js_lt fill (Fin 0)"
  then show "occupancy_percent r =
      js_div (js_round (js_mul (js_div fill cap) (Fin 10000))) (Fin 100)"
    and "occupancy_level r = Fin 0"
    using assms(3,4,5) by (simp_all add: toRecord_def Let_def calculateOccupancyLevel_def)
next
  fix f c
  assume h: "fill = Fin f \<and> cap = Fin c \<and> 0 < c \<and> f < 0"
  then have p: "occupancy_percent r =
      js_div (js_round (js_mul (js_div (Fin f) (Fin c)) (Fin 10000))) (Fin 100)"
    using assms(3,4,5) by (auto simp: toRecord_def Let_def js_gt_def)
  have "js_le (Fin f) (Fin 0)"
    using h by simp
  then have "js_le (js_div (Fin f) (Fin c)) (Fin 0)"
    using h by (intro js_div_nonpos) simp_all
  then have "js_le (js_mul (js_div (Fin f) (Fin c)) (Fin 10000)) (Fin 0)"
    by (intro js_mul_nonpos) simp_all
  then have "js_le (js_round (js_mul (js_div (Fin f) (Fin c)) (Fin 10000))) (Fin 0)"
    by (rule js_round_nonpos)
  then show "js_le (occupancy_percent r) (Fin 0)"
    unfolding p by (intro js_div_nonpos) simp_all
qed

text \<open>The rule at fill -7 of capacity 800: -0.88 is stored, a negative percentage.\<close>

theorem negative_fill_rule_witness:
  "js_gt (Fin 800) (Fin 0) \<and> js_lt (Fin (- 7)) (Fin 0) \<and>
   occupancy_percent (toRecord (\<lambda>s. NaN) ''T'' entry_minus7_of_800) =
     js_div (Fin (- 88)) (Fin 100) \<and>
   js_lt (js_div (Fin (- 88)) (Fin 100)) (Fin 0) \<and>
   js_le (occupancy_percent (toRecord (\<lambda>s. NaN) ''T'' entry_minus7_of_800)) (Fin 0) \<and>
   occupancy_level (toRecord (\<lambda>s. NaN) ''T'' entry_minus7_of_800) = Fin 0"
proof -
  have e: "entry_minus7_of_800 \<in> set [entry_minus7_of_800]"
    by simp
  have u: "uid entry_minus7_of_800 \<in> TRACKED_POOL_IDS"
    by code_simp
  have f: "Fin (- 7) = Number (\<lambda>s. NaN) (currentfill entry_minus7_of_800)"
    and c: "Fin 800 = Number (\<lambda>s. NaN) (maxspace entry_minus7_of_800)"
    by (simp_all add: entry_minus7_of_800_def)
  note rule = negative_fill_rule [OF e u refl f c]
  have g: "js_gt (Fin 800) (Fin 0) \<and> js_lt (Fin (- 7)) (Fin 0)"
    by (simp add: js_gt_def)
  have "occupancy_percent (toRecord (\<lambda>s. NaN) ''T'' entry_minus7_of_800) =
        js_div (js_round (js_mul (js_div (Fin (- 7)) (Fin 800)) (Fin 10000))) (Fin 100) \<and>
      occupancy_level (toRecord (\<lambda>s. NaN) ''T'' entry_minus7_of_800) = Fin 0"
    using rule g by blast
  moreover have "js_div (js_round (js_mul (js_div (Fin (- 7)) (Fin 800)) (Fin 10000))) (Fin 100) =
      js_div (Fin (- 88)) (Fin 100)"
    by code_simp
  moreover have "js_lt (js_div (Fin (- 88)) (Fin 100)) (Fin 0)"
    by code_simp
  moreover have "js_le (occupancy_percent (toRecord (\<lambda>s. NaN) ''T'' entry_minus7_of_800)) (Fin 0)"
    using rule by simp
  ultimately show ?thesis
    using g by simp
qed

text \<open>
  Claim C10 as stated fails at fill -1 of capacity 100000: \<open>round(-0.1)\<close> is
  zero, so the stored percentage is zero and not negative.
\<close>

theorem negative_percent_counterexample:
  "js_gt (max_capacity (toRecord (\<lambda>s. NaN) ''T'' entry_minus1_of_100000)) (Fin 0) \<and>
   js_lt (current_fill (toRecord (\<lambda>s. NaN) ''T'' entry_minus1_of_100000)) (Fin 0) \<and>
   occupancy_percent (toRecord (\<lambda>s. NaN) ''T'' entry_minus1_of_100000) = Fin 0 \<and>
   \<not> js_lt (occupancy_percent (toRecord (\<lambda>s. NaN) ''T'' entry_minus1_of_100000)) (Fin 0)"
  by code_simp

section \<open>Properties of the scraper\<close>

lemma settle_fields:
  "outcome (settle r s) = Some (case outcome s of None \<Rightarrow> r | Some x \<Rightarrow> x)"
  "closed (settle r s) = closed s"
  "timer_pending (settle r s) = timer_pending s"
  by (simp_all add: settle_def split: option.splits)

lemma on_timeout_settled: "outcome s = Some x \<Longrightarrow> outcome (on_timeout s) = Some x"
  by (simp add: on_timeout_def settle_fields)

lemma on_event_settled: "outcome s = Some x \<Longrightarrow> outcome (on_event env ev s) = Some x"
  by (cases ev)
    (simp_all add: on_event_def on_message_def on_error_def Let_def settle_fields
      split: option.splits)

lemma run_events_settled: "outcome s = Some x \<Longrightarrow> outcome (run_events env evs s) = Some x"
proof (induction evs arbitrary: s)
  case Nil
  then show ?case by (simp add: on_timeout_settled)
next
  case (Cons e evs)
  obtain t ev where e: "e = (t, ev)" by (cases e)
  show ?case
    unfolding e using Cons.prems
    by (auto intro!: Cons.IH on_event_settled on_timeout_settled)
qed





lemma on_event_cleared: "\<not> timer_pending (on_event env ev s)"
  by (cases ev)
    (simp_all add: on_event_def on_message_def on_error_def Let_def settle_fields
      split: option.splits)



lemma on_timeout_initial:
  "outcome (on_timeout initial_ws) = Some (Inl WebSocketTimeout)"
  "closed (on_timeout initial_ws)"
  by (simp_all add: on_timeout_def initial_ws_def settle_fields)


lemma run_events_message:
  assumes "t < TIMEOUT_MS"
  shows "outcome (run_events env ((t, MessageEv raw now) # rest) initial_ws) =
     Some (case parseEntries env raw of
             None \<Rightarrow> Inl HandlerThrew
           | Some entries \<Rightarrow> Inr (toRecords (toNum env) (toISOString now) entries))"
proof -
  have "outcome (on_event env (MessageEv raw now) initial_ws) =
     Some (case parseEntries env raw of
             None \<Rightarrow> Inl HandlerThrew
           | Some entries \<Rightarrow> Inr (toRecords (toNum env) (toISOString now) entries))"
    by (simp add: on_event_def on_message_def Let_def settle_fields initial_ws_def
        split: option.splits)
  then show ?thesis
    using assms by (simp add: run_events_settled)
qed

lemma run_events_error:
  assumes "t < TIMEOUT_MS"
  shows "outcome (run_events env ((t, ErrorEv) # rest) initial_ws) = Some (Inl WebSocketError)"
proof -
  have "outcome (on_event env ErrorEv initial_ws) = Some (Inl WebSocketError)"
    by (simp add: on_event_def on_error_def settle_fields initial_ws_def)
  then show ?thesis
    using assms by (simp add: run_events_settled)
qed

text \<open>The promise of a call on an established channel is always settled.\<close>

lemma fetch_settled: "outcome (run_events env events initial_ws) \<noteq> None"
proof (cases events)
  case Nil
  then show ?thesis by (simp add: on_timeout_initial)
next
  case (Cons e rest)
  obtain t ev where e: "e = (t, ev)" by (cases e)
  show ?thesis
  proof (cases "t < TIMEOUT_MS")
    case True
    then show ?thesis
      unfolding Cons e by (cases ev) (simp_all only: run_events_message run_events_error, simp_all)
  next
    case False
    then have "\<forall>(t', ev') \<in> set [(t, ev)]. TIMEOUT_MS \<le> t'" by simp
    have "outcome (on_event env ev (on_timeout initial_ws)) = Some (Inl WebSocketTimeout)"
      by (simp add: on_event_settled on_timeout_initial)
    then show ?thesis
      unfolding Cons e using False by (simp add: run_events_settled)
  qed
qed

lemma fetch_result_cases:
  "snd (fetchFromWebSocket env upgraded events) =
     (if \<not> upgraded then Inl UpgradeFailed
      else case events of
             [] \<Rightarrow> Inl WebSocketTimeout
           | (t, ev) # rest \<Rightarrow>
               if TIMEOUT_MS \<le> t then Inl WebSocketTimeout
               else (case ev of
                       ErrorEv \<Rightarrow> Inl WebSocketError
                     | MessageEv raw now \<Rightarrow>
                         (case parseEntries env raw of
                            None \<Rightarrow> Inl HandlerThrew
                          | Some entries \<Rightarrow>
                              Inr (toRecords (toNum env) (toISOString now) entries))))"
proof (cases upgraded)
  case False
  then show ?thesis by (simp add: fetchFromWebSocket_def)
next
  case True
  show ?thesis
  proof (cases events)
    case Nil
    then show ?thesis using True by (simp add: fetchFromWebSocket_def on_timeout_initial)
  next
    case (Cons e rest)
    obtain t ev where e: "e = (t, ev)" by (cases e)
    show ?thesis
    proof (cases "TIMEOUT_MS \<le> t")
      case late: True
      have "outcome (on_event env ev (on_timeout initial_ws)) = Some (Inl WebSocketTimeout)"
        by (simp add: on_event_settled on_timeout_initial)
      then have "outcome (run_events env events initial_ws) = Some (Inl WebSocketTimeout)"
        unfolding Cons e using late by (simp add: run_events_settled)
      then show ?thesis
        using True late Cons e by (simp add: fetchFromWebSocket_def Let_def)
    next
      case False
      then have lt: "t < TIMEOUT_MS" by simp
      show ?thesis
      proof (cases ev)
        case (MessageEv raw now)
        show ?thesis
          using True False Cons e MessageEv run_events_message [OF lt, of env raw now rest]
          by (simp add: fetchFromWebSocket_def Let_def)
      next
        case ErrorEv
        show ?thesis
          using True False Cons e ErrorEv run_events_error [OF lt, of env rest]
          by (simp add: fetchFromWebSocket_def Let_def)
      qed
    qed
  qed
qed

lemma occupancy_insert_row:
  "occupancy (insert_row db r) =
     occupancy db @ [PoolRecord.extend r \<lparr> row_id = Suc (last_row_id db) \<rparr>]"
  by (simp add: insert_row_def)

lemma truncate_extend: "PoolRecord.truncate (PoolRecord.extend r \<lparr> row_id = i \<rparr>) = r"
  by (cases r) (simp add: PoolRecord.truncate_def PoolRecord.extend_def)

lemma insert_rows_occupancy:
  "\<exists>new. occupancy (foldl insert_row db records) = occupancy db @ new \<and>
         map PoolRecord.truncate new = records"
proof (induction records arbitrary: db)
  case Nil
  then show ?case by simp
next
  case (Cons r rs)
  from Cons.IH [of "insert_row db r"]
  obtain new where new: "occupancy (foldl insert_row (insert_row db r) rs) =
      occupancy (insert_row db r) @ new" "map PoolRecord.truncate new = rs"
    by (elim exE conjE)
  have "occupancy (foldl insert_row db (r # rs)) =
      occupancy db @ (PoolRecord.extend r \<lparr> row_id = Suc (last_row_id db) \<rparr> # new)"
    by (simp only: foldl.simps new(1) occupancy_insert_row append_assoc append.simps)
  moreover have "map PoolRecord.truncate
      (PoolRecord.extend r \<lparr> row_id = Suc (last_row_id db) \<rparr> # new) = r # rs"
    by (simp only: list.map new(2) truncate_extend)
  ultimately show ?case
    by (intro exI conjI)
qed

lemma truncate_fields:
  "timestamp (PoolRecord.truncate row) = timestamp row"
  "pool_id (PoolRecord.truncate row) = pool_id row"
  by (simp_all add: PoolRecord.truncate_def)

text \<open>What a scrape adds to the table: nothing, or the records of the message.\<close>

lemma scrape_appends:
  "\<exists>new. occupancy (fst (scrapeAndStore env upgraded events db)) = occupancy db @ new \<and>
     (new = [] \<or> snd (fetchFromWebSocket env upgraded events) = Inr (map PoolRecord.truncate new))"
proof (cases "snd (fetchFromWebSocket env upgraded events)")
  case (Inl e)
  then show ?thesis by (simp add: scrapeAndStore_def)
next
  case (Inr records)
  show ?thesis
  proof (cases "records = [] \<or> \<not> (online db \<and> list_all not_null records)")
    case True
    then have "fst (scrapeAndStore env upgraded events db) = db"
      using Inr by (auto simp: scrapeAndStore_def d1_batch_insert_def)
    then show ?thesis
      by simp
  next
    case False
    obtain new where new: "occupancy (foldl insert_row db records) = occupancy db @ new"
      "map PoolRecord.truncate new = records"
      using insert_rows_occupancy by blast
    have "fst (scrapeAndStore env upgraded events db) = foldl insert_row db records"
      using Inr False by (simp add: scrapeAndStore_def d1_batch_insert_def)
    then show ?thesis
      using new Inr by auto
  qed
qed

text \<open>
  A fill that is no number makes a record of \<open>NaN\<close>, which the table refuses: the
  batch fails.
\<close>

lemma batch_refuses_NaN:
  "current_fill (toRecord (\<lambda>s. NaN) ''2026-11-03T01:25:00.712Z''
       \<lparr> uid = ''SSD-4'', maxspace = Num (Fin 500), currentfill = Str ''n/a'' \<rparr>) = NaN \<and>
   d1_batch_insert db0
     [toRecord (\<lambda>s. NaN) ''2026-11-03T01:25:00.712Z''
        \<lparr> uid = ''SSD-4'', maxspace = Num (Fin 500), currentfill = Str ''n/a'' \<rparr>] =
     Inl D1Error"
  by code_simp

lemma toRecords_tracked: "r \<in> set (toRecords tn ts data) \<Longrightarrow> pool_id r \<in> TRACKED_POOL_IDS"
  by (auto simp: toRecords_def toRecord_fields)

lemma toRecords_timestamp: "r \<in> set (toRecords tn ts data) \<Longrightarrow> timestamp r = ts"
  by (auto simp: toRecords_def toRecord_fields)

lemma toRecords_ids:
  "map pool_id (toRecords tn ts data) = filter (\<lambda>u. u \<in> TRACKED_POOL_IDS) (map uid data)"
  by (induction data) (simp_all add: toRecords_def toRecord_fields)

lemma fetch_Inr:
  assumes "snd (fetchFromWebSocket env upgraded events) = Inr records"
  shows "\<exists>t raw now rest entries. events = (t, MessageEv raw now) # rest \<and> t < TIMEOUT_MS \<and>
           parseEntries env raw = Some entries \<and>
           records = toRecords (toNum env) (toISOString now) entries"
  using assms unfolding fetch_result_cases
  by (auto split: if_splits list.splits ws_event.splits option.splits)

text \<open>
  Claim C6. The records made of a payload are those of its entries whose \<open>uid\<close>
  is a key of \<open>POOLS\<close>, in the order of the payload: an entry with any other
  id yields no record. Such an entry raises no error: a message that arrives in time
  and parses resolves the call with the records of the tracked entries. Whatever a
  call of \<open>scrapeAndStore\<close> does, every row of the table afterwards was there
  before or has a tracked \<open>pool_id\<close>.
\<close>
theorem untracked_ids_never_stored:
  "(\<forall>r \<in> set (toRecords tn ts data). pool_id r \<in> TRACKED_POOL_IDS) \<and>
   map pool_id (toRecords tn ts data) = filter (\<lambda>u. u \<in> TRACKED_POOL_IDS) (map uid data) \<and>
   (t < TIMEOUT_MS \<and> parseEntries env raw = Some data \<longrightarrow>
      snd (fetchFromWebSocket env True ((t, MessageEv raw now) # rest)) =
        Inr (toRecords (toNum env) (toISOString now) data)) \<and>
   (\<forall>row \<in> set (occupancy (fst (scrapeAndStore env upgraded events db))).
      row \<in> set (occupancy db) \<or> pool_id row \<in> TRACKED_POOL_IDS)"
proof (intro conjI ballI impI)
  fix r
  assume "r \<in> set (toRecords tn ts data)"
  then show "pool_id r \<in> TRACKED_POOL_IDS"
    by (rule toRecords_tracked)
next
  show "map pool_id (toRecords tn ts data) = filter (\<lambda>u. u \<in> TRACKED_POOL_IDS) (map uid data)"
    by (rule toRecords_ids)
next
  assume "t < TIMEOUT_MS \<and> parseEntries env raw = Some data"
  then show "snd (fetchFromWebSocket env True ((t, MessageEv raw now) # rest)) =
        Inr (toRecords (toNum env) (toISOString now) data)"
    by (simp add: fetch_result_cases)
next
  fix row
  assume row: "row \<in> set (occupancy (fst (scrapeAndStore env upgraded events db)))"
  obtain new where new: "occupancy (fst (scrapeAndStore env upgraded events db)) = occupancy db @ new"
    "new = [] \<or> snd (fetchFromWebSocket env upgraded events) = Inr (map PoolRecord.truncate new)"
    using scrape_appends by blast
  show "row \<in> set (occupancy db) \<or> pool_id row \<in> TRACKED_POOL_IDS"
  proof (cases "row \<in> set (occupancy db)")
    case True
    then show ?thesis by simp
  next
    case False
    then have in_new: "row \<in> set new" and "new \<noteq> []"
      using row new(1) by auto
    then have "snd (fetchFromWebSocket env upgraded events) = Inr (map PoolRecord.truncate new)"
      using new(2) by simp
    then obtain ts' entries where "map PoolRecord.truncate new = toRecords (toNum env) ts' entries"
      using fetch_Inr by blast
    moreover have "PoolRecord.truncate row \<in> set (map PoolRecord.truncate new)"
      using in_new by simp
    ultimately have "pool_id (PoolRecord.truncate row) \<in> TRACKED_POOL_IDS"
      using toRecords_tracked by metis
    then show ?thesis
      by (simp add: truncate_fields)
  qed
qed



text \<open>
  Claim C9. A call of \<open>scrapeAndStore\<close> that succeeds was resolved by a message
  that arrived in time as the first event, and the one reading of the clock taken in
  its listener, as \<open>toISOString\<close> writes it, is the \<open>timestamp\<close> of every
  record of the call and of every row the call appends to the table.
\<close>
theorem records_share_receipt_timestamp:
  assumes "scrapeAndStore env upgraded events db = (db', console, Inr n)"
  shows "\<exists>t raw now rest records new.
           events = (t, MessageEv raw now) # rest \<and> t < TIMEOUT_MS \<and>
           snd (fetchFromWebSocket env upgraded events) = Inr records \<and>
           (\<forall>r \<in> set records. timestamp r = toISOString now) \<and>
           occupancy db' = occupancy db @ new \<and>
           (\<forall>row \<in> set new. timestamp row = toISOString now)"
proof -
  obtain records where records: "snd (fetchFromWebSocket env upgraded events) = Inr records"
    using assms
    by (cases "snd (fetchFromWebSocket env upgraded events)") (simp_all add: scrapeAndStore_def)
  then obtain t raw now rest entries where ev: "events = (t, MessageEv raw now) # rest"
    "t < TIMEOUT_MS" "records = toRecords (toNum env) (toISOString now) entries"
    using fetch_Inr by blast
  have ts: "\<forall>r \<in> set records. timestamp r = toISOString now"
    using ev(3) toRecords_timestamp by blast
  obtain new where new: "occupancy (fst (scrapeAndStore env upgraded events db)) = occupancy db @ new"
    "new = [] \<or> snd (fetchFromWebSocket env upgraded events) = Inr (map PoolRecord.truncate new)"
    using scrape_appends by blast
  have "\<forall>row \<in> set new. timestamp row = toISOString now"
  proof
    fix row
    assume row: "row \<in> set new"
    then have "map PoolRecord.truncate new = records"
      using new(2) records by auto
    then have "PoolRecord.truncate row \<in> set records"
      using row by auto
    then show "timestamp row = toISOString now"
      using ts by (auto simp: truncate_fields)
  qed
  moreover have "occupancy db' = occupancy db @ new"
    using new(1) assms by simp
  ultimately show ?thesis
    using ev(1,2) records ts by blast
qed

lemma toISOString_now0: "toISOString now0 = ''2026-11-03T01:25:00.712Z''"
  by (simp add: toISOString_def now0_def pad2_def pad3_def pad4_def digit_def)

lemma toRecords_payload0:
  "toRecords (toNum env0) ''2026-11-03T01:25:00.712Z'' [entry_untracked, entry_tracked] = [record0]"
  by code_simp

text \<open>
  A payload of an untracked entry and a tracked one, received after 700 ms: the call
  resolves with the one record of the tracked entry.
\<close>

theorem untracked_ids_never_stored_witness:
  "700 < TIMEOUT_MS \<and> parseEntries env0 ''payload'' = Some [entry_untracked, entry_tracked] \<and>
   uid entry_untracked \<notin> TRACKED_POOL_IDS \<and>
   snd (fetchFromWebSocket env0 True [(700, MessageEv ''payload'' now0)]) = Inr [record0]"
proof -
  have h: "700 < TIMEOUT_MS \<and> parseEntries env0 ''payload'' = Some [entry_untracked, entry_tracked]"
    by (simp add: TIMEOUT_MS_def env0_def)
  have "snd (fetchFromWebSocket env0 True [(700, MessageEv ''payload'' now0)]) =
      Inr (toRecords (toNum env0) (toISOString now0) [entry_untracked, entry_tracked])"
    by (rule untracked_ids_never_stored [where t = 700 and env = env0 and raw = "''payload''"
          and data = "[entry_untracked, entry_tracked]" and now = now0 and rest = "[]",
          THEN conjunct2, THEN conjunct2, THEN conjunct1, THEN mp, OF h])
  moreover have "uid entry_untracked \<notin> TRACKED_POOL_IDS"
    by (simp add: entry_untracked_def TRACKED_POOL_IDS_def POOLS_def)
  ultimately show ?thesis
    using h by (simp only: toISOString_now0 toRecords_payload0 simp_thms)
qed



lemma scrape_snapshot:
  "scrapeAndStore env1 True [(700, MessageEv ''snapshot'' now0)] db0 =
     (db_two, [Stored 2 ''2026-11-03T01:25:00.712Z''], Inr 2)"
  by code_simp

lemma fetch_snapshot:
  "snd (fetchFromWebSocket env1 True [(700, MessageEv ''snapshot'' now0)]) =
     Inr [record0, record_enge]"
  by code_simp

text \<open>
  A payload of two tracked entries and an untracked one, stored into the empty
  database: two records and two rows, all with the one time of receipt.
\<close>

theorem records_share_receipt_timestamp_witness:
  "scrapeAndStore env1 True [(700, MessageEv ''snapshot'' now0)] db0 =
     (db_two, [Stored 2 ''2026-11-03T01:25:00.712Z''], Inr 2) \<and>
   snd (fetchFromWebSocket env1 True [(700, MessageEv ''snapshot'' now0)]) =
     Inr [record0, record_enge] \<and>
   pool_id record0 \<noteq> pool_id record_enge \<and>
   map timestamp [record0, record_enge] = [toISOString now0, toISOString now0] \<and>
   map timestamp (occupancy db_two) = [toISOString now0, toISOString now0] \<and>
   (\<exists>t raw now rest records new.
      [(700, MessageEv ''snapshot'' now0)] = (t, MessageEv raw now) # rest \<and> t < TIMEOUT_MS \<and>
      snd (fetchFromWebSocket env1 True [(700, MessageEv ''snapshot'' now0)]) = Inr records \<and>
      (\<forall>r \<in> set records. timestamp r = toISOString now) \<and>
      occupancy db_two = occupancy db0 @ new \<and>
      (\<forall>row \<in> set new. timestamp row = toISOString now))"
proof -
  have "pool_id record0 \<noteq> pool_id record_enge"
    by (simp add: record0_def record_enge_def)
  moreover have "map timestamp [record0, record_enge] = [toISOString now0, toISOString now0]"
    by (simp add: record0_def record_enge_def toISOString_now0)
  moreover have "map timestamp (occupancy db_two) = [toISOString now0, toISOString now0]"
    by (simp add: db_two_def record0_def record_enge_def toISOString_now0
        PoolRecord.extend_def)
  ultimately show ?thesis
    using scrape_snapshot fetch_snapshot records_share_receipt_timestamp [OF scrape_snapshot]
    by (intro conjI)
qed

section \<open>Properties of the query API\<close>

lemma max_timestamp_Max:
  "rows \<noteq> [] \<Longrightarrow> max_timestamp rows = Some (Max (timestamp ` set rows))"
proof (induction rows)
  case Nil
  then show ?case by simp
next
  case (Cons r rs)
  show ?case
  proof (cases "rs = []")
    case True
    then show ?thesis by simp
  next
    case False
    then have "max_timestamp rs = Some (Max (timestamp ` set rs))"
      by (rule Cons.IH)
    moreover have "Max (timestamp ` set (r # rs)) = max (timestamp r) (Max (timestamp ` set rs))"
      using False by (simp add: Max_insert)
    ultimately show ?thesis by simp
  qed
qed

lemma latest_filter:
  "filter (\<lambda>r. Some (timestamp r) = max_timestamp rows) rows =
   filter (\<lambda>r. timestamp r = Max (timestamp ` set rows)) rows"
  by (cases "rows = []") (simp_all add: max_timestamp_Max)

text \<open>
  Claim C5. While the database answers, the query of \<open>GET /api/current\<close> returns
  exactly the rows of the table whose \<open>timestamp\<close> is the greatest one stored
  (each as often as the table holds it; none when the table is empty), in the order
  of \<open>pool_name\<close>; so all rows returned are of one capture time. The response is
  the JSON array of these rows with status 200.
\<close>
theorem latest_snapshot_one_timestamp:
  assumes "online db"
  shows "\<exists>rows. latestSnapshot db = Inr rows \<and>
           handleCurrent db = Inr (json_response (JArr (map row_json rows)) 200) \<and>
           mset rows =
             mset (filter (\<lambda>r. timestamp r = Max (timestamp ` set (occupancy db))) (occupancy db)) \<and>
           sorted (map pool_name rows) \<and>
           (\<forall>r \<in> set rows. \<forall>r' \<in> set rows. timestamp r = timestamp r')"
proof -
  define latest where
    "latest = filter (\<lambda>r. timestamp r = Max (timestamp ` set (occupancy db))) (occupancy db)"
  define rows where "rows = sort_key pool_name latest"
  have snap: "latestSnapshot db = Inr rows"
    using assms by (simp add: latestSnapshot_def rows_def latest_def latest_filter)
  then have "handleCurrent db = Inr (json_response (JArr (map row_json rows)) 200)"
    by (simp add: handleCurrent_def)
  moreover have "mset rows = mset latest"
    by (simp add: rows_def)
  moreover have "sorted (map pool_name rows)"
    by (simp add: rows_def)
  moreover have "\<forall>r \<in> set rows. \<forall>r' \<in> set rows. timestamp r = timestamp r'"
    by (simp add: rows_def latest_def)
  ultimately show ?thesis
    using snap unfolding latest_def by blast
qed

lemma latestSnapshot_db2: "latestSnapshot db2 = Inr [row_enge, row_utoquai]"
  by (simp add: latestSnapshot_def db2_def row_old_def row_utoquai_def row_enge_def max_def)

text \<open>A table of one older row and two rows of the latest scrape.\<close>
theorem latest_snapshot_one_timestamp_witness:
  "online db2 \<and> latestSnapshot db2 = Inr [row_enge, row_utoquai] \<and>
   (\<exists>rows. latestSnapshot db2 = Inr rows \<and>
      handleCurrent db2 = Inr (json_response (JArr (map row_json rows)) 200) \<and>
      mset rows =
        mset (filter (\<lambda>r. timestamp r = Max (timestamp ` set (occupancy db2))) (occupancy db2)) \<and>
      sorted (map pool_name rows) \<and>
      (\<forall>r \<in> set rows. \<forall>r' \<in> set rows. timestamp r = timestamp r'))"
proof -
  have on: "online db2"
    by (simp add: db2_def)
  show ?thesis
    using on latestSnapshot_db2 latest_snapshot_one_timestamp [OF on]
    by (intro conjI)
qed

lemma json_response_fields:
  "status (json_response data st) = st"
  "headers (json_response data st) = (''Content-Type'', ''application/json'') # CORS_HEADERS"
  "body (json_response data st) = Some data"
  by (simp_all add: json_response_def)

lemma well_formed_json: "st \<in> {200, 404, 405} \<Longrightarrow> well_formed (json_response data st)"
  by (auto simp: well_formed_def json_response_fields)

lemma well_formed_options: "well_formed handleOptions"
  by (simp add: well_formed_def handleOptions_def)

lemma handleCurrent_cases:
  "handleCurrent db =
     (if online db
      then Inr (json_response
                  (JArr (map row_json
                     (sort_key pool_name
                        (filter (\<lambda>r. Some (timestamp r) = max_timestamp (occupancy db))
                           (occupancy db)))))
                  200)
      else Inl D1Error)"
  by (simp add: handleCurrent_def latestSnapshot_def)

lemma handleHistory_cases:
  "handleHistory since db req =
     (if online db
      then (case rangeQuery since db (clampedHours req) (param_or (searchParams req) ''pool'' None) of
              Inl e \<Rightarrow> Inl e
            | Inr results \<Rightarrow> Inr (json_response (JArr (map row_json results)) 200))
      else Inl D1Error)"
  by (simp add: handleHistory_def rangeQuery_def)

lemma rangeQuery_online: "online db \<Longrightarrow> \<exists>rows. rangeQuery since db h p = Inr rows"
  by (simp add: rangeQuery_def split: option.splits)

lemma handleCurrent_ok: "handleCurrent db = Inr resp \<Longrightarrow> well_formed resp"
  by (auto simp: handleCurrent_cases well_formed_json split: if_splits)

lemma handleHistory_ok: "handleHistory since db req = Inr resp \<Longrightarrow> well_formed resp"
  by (auto simp: handleHistory_def well_formed_json split: sum.splits)

lemma handleCurrent_err: "handleCurrent db = Inl e \<Longrightarrow> e = D1Error \<and> \<not> online db"
  by (auto simp: handleCurrent_cases split: if_splits)

lemma handleHistory_err: "handleHistory since db req = Inl e \<Longrightarrow> e = D1Error \<and> \<not> online db"
  using rangeQuery_online [of db since "clampedHours req" "param_or (searchParams req) ''pool'' None"]
  by (auto simp: handleHistory_cases split: if_splits sum.splits)

text \<open>
  Claim C2, amended. Every response \<open>handleRequest\<close> returns carries the three
  CORS headers and has status 200, 204, 404 or 405; the 204 response to
  \<open>OPTIONS\<close> has no body, and every other response has a JSON body declared as
  \<open>application/json\<close>. The router builds no response of status 500: when the
  database fails, a \<open>GET\<close> of \<open>/api/current\<close> or \<open>/api/history\<close>
  returns no response, the error of the database leaving \<open>handleRequest\<close>
  uncaught; that is the only way the router fails.
\<close>
theorem handleRequest_responses:
  "(handleRequest since req db = Inr resp \<longrightarrow>
      set CORS_HEADERS \<subseteq> set (headers resp) \<and> status resp \<in> {200, 204, 404, 405} \<and>
      (if status resp = 204 then body resp = None
       else body resp \<noteq> None \<and>
            map_of (headers resp) ''Content-Type'' = Some ''application/json'')) \<and>
   (handleRequest since req db = Inl e \<longrightarrow>
      e = D1Error \<and> \<not> online db \<and> http_method req = ''GET'' \<and>
      (pathname req = ''/api/current'' \<or> pathname req = ''/api/history'')) \<and>
   (\<not> online db \<and> http_method req = ''GET'' \<and>
      (pathname req = ''/api/current'' \<or> pathname req = ''/api/history'') \<longrightarrow>
      handleRequest since req db = Inl D1Error)"
proof (intro conjI impI)
  assume r: "handleRequest since req db = Inr resp"
  have "well_formed resp"
    using r
    by (auto simp: handleRequest_def handlePools_def well_formed_json well_formed_options
        handleCurrent_ok handleHistory_ok split: if_splits)
  then show "set CORS_HEADERS \<subseteq> set (headers resp)"
    and "status resp \<in> {200, 204, 404, 405}"
    and "if status resp = 204 then body resp = None
       else body resp \<noteq> None \<and>
            map_of (headers resp) ''Content-Type'' = Some ''application/json''"
    by (simp_all add: well_formed_def)
next
  assume l: "handleRequest since req db = Inl e"
  then show "e = D1Error" and "\<not> online db" and "http_method req = ''GET''"
    and "pathname req = ''/api/current'' \<or> pathname req = ''/api/history''"
    by (auto simp: handleRequest_def split: if_splits dest: handleCurrent_err handleHistory_err)
next
  assume "\<not> online db \<and> http_method req = ''GET'' \<and>
      (pathname req = ''/api/current'' \<or> pathname req = ''/api/history'')"
  then show "handleRequest since req db = Inl D1Error"
    by (auto simp: handleRequest_def handleCurrent_cases handleHistory_cases)
qed

lemma handleRequest_current_db2:
  "handleRequest (\<lambda>h. None) req_current db2 = Inr resp_current"
  by (simp add: handleRequest_def req_current_def handleCurrent_def latestSnapshot_db2
      resp_current_def)

text \<open>
  \<open>GET /api/current\<close> against the table of three rows, and against a database
  that fails.
\<close>
theorem handleRequest_responses_witness:
  "handleRequest (\<lambda>h. None) req_current db2 = Inr resp_current \<and>
   set CORS_HEADERS \<subseteq> set (headers resp_current) \<and>
   status resp_current = 200 \<and> body resp_current \<noteq> None \<and>
   \<not> online db_offline \<and> http_method req_current = ''GET'' \<and>
   handleRequest (\<lambda>h. None) req_current db_offline = Inl D1Error"
proof -
  note ok = handleRequest_responses [THEN conjunct1, THEN mp, OF handleRequest_current_db2]
  have off: "\<not> online db_offline \<and> http_method req_current = ''GET'' \<and>
      (pathname req_current = ''/api/current'' \<or> pathname req_current = ''/api/history'')"
    by (simp add: db_offline_def req_current_def)
  note err = handleRequest_responses [THEN conjunct2, THEN conjunct2, THEN mp, OF off]
  have "status resp_current = 200"
    by (simp add: resp_current_def json_response_fields)
  then show ?thesis
    using ok err off handleRequest_current_db2 by simp
qed

text \<open>
  Claim C2 as stated fails: with a failing database, \<open>GET /api/current\<close> yields
  the error of the database and no response, so no JSON body, no status 500 and no
  CORS header.
\<close>
theorem store_failure_no_response_counterexample:
  "\<not> online db_offline \<and> handleRequest (\<lambda>h. None) req_current db_offline = Inl D1Error"
  by (simp add: handleRequest_def req_current_def db_offline_def handleCurrent_def
      latestSnapshot_def)

lemma parseInt_24: "parseInt ''24'' = Fin 24"
  by code_simp

text \<open>White space beyond ASCII is skipped, and a long run of digits is rounded.\<close>

lemma parseInt_examples:
  "parseInt ([CHR 0xC2, CHR 0xA0] @ ''12'') = Fin 12 \<and>
   parseInt ''  -42px'' = Fin (- 42) \<and>
   parseInt ''99999999999999999999999'' = Fin 99999999999999991611392"
  by code_simp

lemma hours_default:
  "map_of (searchParams req) ''hours'' = None \<or> map_of (searchParams req) ''hours'' = Some [] \<Longrightarrow>
     clampedHours req = Fin 24"
  by (auto simp: clampedHours_def requestedHours_def param_or_def parseInt_24 js_min_Fin js_max_Fin)

lemma hours_clamped:
  "requestedHours req = Fin n \<Longrightarrow>
     clampedHours req = Fin (min (max n 1) 672) \<and> 1 \<le> min (max n 1) 672 \<and> min (max n 1) 672 \<le> 672"
  by (simp add: clampedHours_def js_min_Fin js_max_Fin)

text \<open>
  Claim C3, at \<open>GET /api/history?hours=abc\<close>: \<open>parseInt('abc', 10)\<close> is
  \<open>NaN\<close>, which \<open>Math.max\<close> and \<open>Math.min\<close> pass on, so the value
  bound to the query is \<open>NaN\<close>: not the default 24 and not within 1 and 672.
  (An absent or empty parameter gives 24, and every numeric value is clamped into
  the range: \<open>hours_default\<close>, \<open>hours_clamped\<close>.)
\<close>
theorem hours_abc_not_clamped:
  "requestedHours req_hours_abc = NaN \<and> clampedHours req_hours_abc = NaN \<and>
   clampedHours req_hours_abc \<noteq> Fin 24 \<and>
   \<not> js_le (Fin 1) (clampedHours req_hours_abc) \<and>
   \<not> js_le (clampedHours req_hours_abc) (Fin 672)"
proof -
  have "requestedHours req_hours_abc = NaN"
    by code_simp
  then show ?thesis
    by (simp add: clampedHours_def js_max_def js_min_def)
qed

section \<open>Properties of the retention\<close>

lemma cleanup_online:
  assumes "online db"
  shows "cleanupOldData cutoff db =
     Inr (db\<lparr>occupancy := filter (\<lambda>r. \<not> timestamp r < sqlite_datetime cutoff) (occupancy db)\<rparr>,
          length (filter (\<lambda>r. timestamp r < sqlite_datetime cutoff) (occupancy db)),
          if 0 < length (filter (\<lambda>r. timestamp r < sqlite_datetime cutoff) (occupancy db))
          then [CleanedUp (length (filter (\<lambda>r. timestamp r < sqlite_datetime cutoff) (occupancy db)))]
          else [])"
proof -
  have "length (occupancy db) -
      length (filter (\<lambda>r. \<not> timestamp r < sqlite_datetime cutoff) (occupancy db)) =
      length (filter (\<lambda>r. timestamp r < sqlite_datetime cutoff) (occupancy db))"
    using sum_length_filter_compl [of "\<lambda>r. timestamp r < sqlite_datetime cutoff" "occupancy db"]
    by simp
  then show ?thesis
    using assms unfolding cleanupOldData_def Let_def by simp
qed

lemma cleanup_twice:
  assumes "cleanupOldData cutoff db = Inr (db', n, out)"
  shows "cleanupOldData cutoff db' = Inr (db', 0, [])"
proof -
  have on: "online db"
    using assms by (auto simp: cleanupOldData_def split: if_splits)
  have db': "db' = db\<lparr>occupancy :=
      filter (\<lambda>r. \<not> timestamp r < sqlite_datetime cutoff) (occupancy db)\<rparr>"
    using assms cleanup_online [OF on, of cutoff] by simp
  have "online db'"
    using on db' by simp
  then show ?thesis
    using cleanup_online [of db' cutoff] by (simp add: db')
qed

lemma digit_codes: "\<forall>n \<in> {..<10}. (of_char (digit n) :: nat) = 48 + n"
  by (simp add: lessThan_nat_numeral lessThan_Suc digit_def)

lemma digit_code: "n < 10 \<Longrightarrow> (of_char (digit n) :: nat) = 48 + n"
  using digit_codes by blast

lemma digit_mod: "digit n = digit (n mod 10)"
  by (simp add: digit_def)

lemma digit_less: "a < 10 \<Longrightarrow> b < 10 \<Longrightarrow> (digit a < digit b) = (a < b)"
  by (simp add: less_char_def digit_code)

lemma digit_eq: "a < 10 \<Longrightarrow> b < 10 \<Longrightarrow> (digit a = digit b) = (a = b)"
proof
  assume "a < 10" "b < 10" "digit a = digit b"
  then have "(of_char (digit a) :: nat) = of_char (digit b)" by simp
  then show "a = b"
    using \<open>a < 10\<close> \<open>b < 10\<close> by (simp add: digit_code)
qed simp

lemma less_append_same_length:
  "length xs = length ys \<Longrightarrow> (xs @ us < ys @ vs) = (xs < ys \<or> xs = ys \<and> us < vs)"
  for xs ys us vs :: "'a::linorder list"
  by (induction xs ys rule: list_induct2) auto

lemma div_less_imp_less: "a div k < b div k \<Longrightarrow> a < b" for a b k :: nat
proof (rule ccontr)
  assume "a div k < b div k" and "\<not> a < b"
  then have "b div k \<le> a div k"
    by (simp add: div_le_mono)
  with \<open>a div k < b div k\<close> show False
    by simp
qed

lemma less_div_mod:
  "(a < b) = (a div k < b div k \<or> a div k = b div k \<and> a mod k < b mod k)"
  for a b k :: nat
proof (cases "a div k = b div k")
  case True
  have "(a < b) = (a mod k < b mod k)"
    by (metis True mult_div_mod_eq add_less_cancel_left)
  then show ?thesis
    by (simp add: True)
next
  case False
  then consider "a div k < b div k" | "b div k < a div k"
    by linarith
  then show ?thesis
  proof cases
    case 1
    then show ?thesis
      using div_less_imp_less [of a k b] by simp
  next
    case 2
    then show ?thesis
      using div_less_imp_less [of b k a] by simp
  qed
qed

lemma eq_div_mod: "(a = b) = (a div k = b div k \<and> a mod k = b mod k)" for a b k :: nat
  by (metis div_mult_mod_eq)

lemma pad2_less: "a < 100 \<Longrightarrow> b < 100 \<Longrightarrow> (pad2 a < pad2 b) = (a < b)"
proof -
  assume "a < 100" "b < 100"
  then have d: "a div 10 < 10" "b div 10 < 10" "a mod 10 < 10" "b mod 10 < 10"
    by simp_all
  have "(pad2 a < pad2 b) =
      (a div 10 < b div 10 \<or> a div 10 = b div 10 \<and> a mod 10 < b mod 10)"
    unfolding pad2_def digit_mod [of a] digit_mod [of b]
    by (simp add: digit_less digit_eq d)
  then show ?thesis
    using less_div_mod [of a b 10] by simp
qed

lemma pad2_eq: "a < 100 \<Longrightarrow> b < 100 \<Longrightarrow> (pad2 a = pad2 b) = (a = b)"
proof -
  assume "a < 100" "b < 100"
  then have d: "a div 10 < 10" "b div 10 < 10" "a mod 10 < 10" "b mod 10 < 10"
    by simp_all
  have "(pad2 a = pad2 b) = (a div 10 = b div 10 \<and> a mod 10 = b mod 10)"
    unfolding pad2_def digit_mod [of a] digit_mod [of b]
    by (simp add: digit_eq d)
  then show ?thesis
    using eq_div_mod [of a b 10] by simp
qed

lemma mod_100: "n mod 100 div 10 = n div 10 mod 10" "n mod 100 mod 10 = n mod 10" for n :: nat
proof -
  have "n mod (10 * 10) = 10 * (n div 10 mod 10) + n mod 10"
    by (rule mod_mult2_eq)
  then have m: "n mod 100 = 10 * (n div 10 mod 10) + n mod 10"
    by simp
  show "n mod 100 div 10 = n div 10 mod 10"
    unfolding m by simp
  show "n mod 100 mod 10 = n mod 10"
    unfolding m by simp
qed

lemma pad4_split: "pad4 n = pad2 (n div 100) @ pad2 (n mod 100)"
proof -
  have "n div 100 div 10 = n div 1000"
    by (simp add: div_mult2_eq [symmetric])
  then have "digit (n div 1000) = digit (n div 100 div 10)"
    by simp
  moreover have "digit (n div 10) = digit (n mod 100 div 10)"
    unfolding digit_mod [of "n div 10"] mod_100 ..
  moreover have "digit n = digit (n mod 100)"
    unfolding digit_mod [of n] digit_mod [of "n mod 100"] mod_100 ..
  ultimately show ?thesis
    unfolding pad4_def pad2_def by simp
qed

lemma length_pad2: "length (pad2 n) = 2"
  by (simp add: pad2_def)

lemma pad4_less: "a < 10000 \<Longrightarrow> b < 10000 \<Longrightarrow> (pad4 a < pad4 b) = (a < b)"
proof -
  assume ab: "a < 10000" "b < 10000"
  then have d: "a div 100 < 100" "b div 100 < 100" "a mod 100 < 100" "b mod 100 < 100"
    by simp_all
  have "(pad4 a < pad4 b) =
      (a div 100 < b div 100 \<or> a div 100 = b div 100 \<and> a mod 100 < b mod 100)"
    by (simp add: pad4_split less_append_same_length length_pad2 pad2_less pad2_eq d)
  then show ?thesis
    using less_div_mod [of a b 100] by simp
qed

lemma pad4_eq: "a < 10000 \<Longrightarrow> b < 10000 \<Longrightarrow> (pad4 a = pad4 b) = (a = b)"
proof -
  assume ab: "a < 10000" "b < 10000"
  then have d: "a div 100 < 100" "b div 100 < 100" "a mod 100 < 100" "b mod 100 < 100"
    by simp_all
  have "(pad4 a = pad4 b) = (a div 100 = b div 100 \<and> a mod 100 = b mod 100)"
    by (simp add: pad4_split length_pad2 pad2_eq d)
  then show ?thesis
    using eq_div_mod [of a b 100] by simp
qed

lemma length_pad4: "length (pad4 n) = 4"
  by (simp add: pad4_def)

text \<open>
  The text of a reading as the worker stores it is below the text of a reading as
  SQLite writes it exactly when its calendar day is an earlier one: on the same day
  the \<open>T\<close> of the one is above the space of the other.
\<close>

lemma iso_below_sqlite:
  assumes "valid_instant a" and "valid_instant c"
  shows "(toISOString a < sqlite_datetime c) =
     ([year a, month a, day a] < [year c, month c, day c])"
proof -
  have y: "year a < 10000" "year c < 10000"
    and m: "month a < 100" "month c < 100"
    and d: "day a < 100" "day c < 100"
    using assms by (simp_all add: valid_instant_def)
  show ?thesis
    unfolding toISOString_def sqlite_datetime_def
    by (simp add: less_append_same_length length_pad2 length_pad4
        pad4_less pad4_eq pad2_less pad2_eq y m d)
qed

text \<open>
  So the cleanup removes the rows of the days before the day of the cutoff, and keeps
  every row of the day of the cutoff itself.
\<close>

lemma cleanup_by_day:
  assumes "cleanupOldData cutoff db = Inr (db', n, out)"
    and "valid_instant cutoff" and "valid_instant t"
    and "row \<in> set (occupancy db)" and "timestamp row = toISOString t"
  shows "(row \<in> set (occupancy db')) =
     (\<not> [year t, month t, day t] < [year cutoff, month cutoff, day cutoff])"
proof -
  have on: "online db"
    using assms(1) by (auto simp: cleanupOldData_def split: if_splits)
  have "occupancy db' =
      filter (\<lambda>r. \<not> timestamp r < sqlite_datetime cutoff) (occupancy db)"
    using assms(1) cleanup_online [OF on, of cutoff] by auto
  then have "(row \<in> set (occupancy db')) = (\<not> toISOString t < sqlite_datetime cutoff)"
    using assms(4,5) by simp
  then show ?thesis
    by (simp add: iso_below_sqlite assms(2,3))
qed

text \<open>
  Claim C7, at a row written at 00:00:00.900 on 2026-08-05 and a cleanup whose cutoff
  is 00:00:02 of that day: the row is before the cutoff, but its text
  \<open>2026-08-05T00:00:00.900Z\<close> is not below the text \<open>2026-08-05 00:00:02\<close>
  of the cutoff (\<open>T\<close> is above the space), so the row is kept and no deletion is
  counted.
\<close>
theorem cleanup_keeps_row_before_cutoff:
  "timestamp row_midnight = toISOString t_midnight \<and> before t_midnight cutoff0 \<and>
   sqlite_datetime cutoff0 = ''2026-08-05 00:00:02'' \<and>
   cleanupOldData cutoff0 db_midnight = Inr (db_midnight, 0, [])"
proof -
  have "toISOString t_midnight = ''2026-08-05T00:00:00.900Z''"
    by (simp add: toISOString_def t_midnight_def pad2_def pad3_def pad4_def digit_def)
  moreover have "before t_midnight cutoff0"
    by (simp add: before_def instant_key_def t_midnight_def cutoff0_def)
  moreover have c: "sqlite_datetime cutoff0 = ''2026-08-05 00:00:02''"
    by (simp add: sqlite_datetime_def cutoff0_def pad2_def pad4_def digit_def)
  moreover have "cleanupOldData cutoff0 db_midnight = Inr (db_midnight, 0, [])"
    unfolding cleanupOldData_def c
    by (simp add: db_midnight_def row_midnight_def)
  ultimately show ?thesis
    by (simp add: row_midnight_def)
qed

end
